theory Spec2Isabelle
  imports Main "HOL-Library.Char_ord" "HOL-Library.List_Lexorder" "HOL-Library.Sublist"
begin

text \<open>
  A shallow embedding of the request/response marshalling and rule validation of the
  Twitter v2 client: \<open>v2/tweet_search.go\<close> and \<open>v2/user_params.go\<close>. Strings are byte
  lists (\<open>string\<close>), Go's \<open>int\<close> is \<open>int\<close> (no arithmetic is done on it), a Go \<open>error\<close>
  result is an option or the left side of a sum.
\<close>

section \<open>The Go library functions that addQuery calls\<close>

subsection \<open>url.Values\<close>

text \<open>
  \<open>url.Values\<close> is \<open>map[string][]string\<close>. The map is a list of keys with their value
  lists, each key once (the order of the entries is the order of first insertion and is
  never observed: \<open>Encode\<close> sorts the keys). \<open>index v key\<close> is the Go expression
  \<open>v[key]\<close>, the empty slice for an absent key; \<open>Add\<close> is
  \<open>v[key] = append(v[key], value)\<close>.
\<close>

type_synonym Values = "(string \<times> string list) list"

fun index :: "Values \<Rightarrow> string \<Rightarrow> string list" where
  "index [] key = []"
| "index ((k, vs) # m) key = (if k = key then vs else index m key)"

fun Add :: "Values \<Rightarrow> string \<Rightarrow> string \<Rightarrow> Values" where
  "Add [] key v = [(key, [v])]"
| "Add ((k, vs) # m) key v = (if k = key then (k, vs @ [v]) # m else (k, vs) # Add m key v)"

subsection \<open>url.QueryEscape and url.QueryUnescape\<close>

text \<open>
  \<open>shouldEscape\<close> in the mode \<open>encodeQueryComponent\<close>: letters, digits and the four
  marks \<open>- _ . ~\<close> are kept, every other byte is escaped. \<open>QueryEscape\<close> writes a space
  as \<open>+\<close> and an escaped byte as \<open>%\<close> and two upper-case hexadecimal digits.
\<close>

definition upperhex :: string where
  "upperhex = ''0123456789ABCDEF''"

definition shouldEscape :: "char \<Rightarrow> bool" where
  "shouldEscape c =
     (if (CHR ''a'' \<le> c \<and> c \<le> CHR ''z'') \<or> (CHR ''A'' \<le> c \<and> c \<le> CHR ''Z'')
          \<or> (CHR ''0'' \<le> c \<and> c \<le> CHR ''9'') then False
      else if c = CHR ''-'' \<or> c = CHR ''_'' \<or> c = CHR ''.'' \<or> c = CHR ''~'' then False
      else True)"

fun QueryEscape :: "string \<Rightarrow> string" where
  "QueryEscape [] = []"
| "QueryEscape (c # s) =
     (if c = CHR '' '' then CHR ''+'' # QueryEscape s
      else if shouldEscape c
        then CHR ''%'' # upperhex ! (of_char c div 16) # upperhex ! (of_char c mod 16)
               # QueryEscape s
      else c # QueryEscape s)"

text \<open>
  \<open>QueryUnescape\<close>: \<open>%XX\<close> with two hexadecimal digits is one byte, \<open>+\<close> is a space;
  a \<open>%\<close> that is not followed by two hexadecimal digits is an error (\<open>None\<close>).
\<close>

definition ishex :: "char \<Rightarrow> bool" where
  "ishex c = ((CHR ''0'' \<le> c \<and> c \<le> CHR ''9'') \<or> (CHR ''a'' \<le> c \<and> c \<le> CHR ''f'')
               \<or> (CHR ''A'' \<le> c \<and> c \<le> CHR ''F''))"

text \<open>\<open>unhex\<close> is called on hexadecimal digits only (Go panics on any other byte).\<close>

definition unhex :: "char \<Rightarrow> nat" where
  "unhex c =
     (if CHR ''0'' \<le> c \<and> c \<le> CHR ''9'' then of_char c - of_char (CHR ''0'')
      else if CHR ''a'' \<le> c \<and> c \<le> CHR ''f'' then of_char c - of_char (CHR ''a'') + 10
      else if CHR ''A'' \<le> c \<and> c \<le> CHR ''F'' then of_char c - of_char (CHR ''A'') + 10
      else 0)"

fun QueryUnescape :: "string \<Rightarrow> string option" where
  "QueryUnescape [] = Some []"
| "QueryUnescape (c # s) =
     (if c = CHR ''%'' then
        (case s of
           h1 # h2 # rest \<Rightarrow>
             (if ishex h1 \<and> ishex h2
              then map_option (\<lambda>t. char_of (unhex h1 * 16 + unhex h2) # t) (QueryUnescape rest)
              else None)
         | _ \<Rightarrow> None)
      else if c = CHR ''+'' then map_option (\<lambda>t. CHR '' '' # t) (QueryUnescape s)
      else map_option (\<lambda>t. c # t) (QueryUnescape s))"

subsection \<open>url.ParseQuery\<close>

text \<open>
  \<open>Cut s sep\<close> is \<open>strings.Cut\<close> for a one-byte separator: the text before the first
  separator and the text after it (all of \<open>s\<close> and the empty string when there is none).
\<close>

definition Cut :: "string \<Rightarrow> char \<Rightarrow> string \<times> string" where
  "Cut s sep = (takeWhile (\<lambda>c. c \<noteq> sep) s, drop 1 (dropWhile (\<lambda>c. c \<noteq> sep) s))"

lemma Cut_shorter: "s \<noteq> [] \<Longrightarrow> length (snd (Cut s sep)) < length s"
proof -
  assume "s \<noteq> []"
  then have pos: "length s \<noteq> 0" by simp
  have le: "length (dropWhile (\<lambda>c. c \<noteq> sep) s) \<le> length s"
    by (rule length_dropWhile_le)
  show ?thesis
    unfolding Cut_def snd_conv length_drop using pos le by arith
qed

text \<open>
  The loop of \<open>parseQuery\<close> (Go 1.17 and later): cut the next \<open>&\<close>-separated segment;
  skip it when it contains a semicolon, is empty, or its key or value does not
  unescape; otherwise append the value under the key. \<open>URL.Query\<close> drops the error
  that \<open>ParseQuery\<close> reports for skipped segments, so only the map is modelled.
\<close>

function parseQuery :: "Values \<Rightarrow> string \<Rightarrow> Values" where
  "parseQuery m query =
     (if query = [] then m
      else (let key = fst (Cut query (CHR ''&''));
                rest = snd (Cut query (CHR ''&''))
            in if CHR '';'' \<in> set key then parseQuery m rest
               else if key = [] then parseQuery m rest
               else (case QueryUnescape (fst (Cut key (CHR ''=''))) of
                       None \<Rightarrow> parseQuery m rest
                     | Some k \<Rightarrow>
                         (case QueryUnescape (snd (Cut key (CHR ''=''))) of
                            None \<Rightarrow> parseQuery m rest
                          | Some v \<Rightarrow> parseQuery (Add m k v) rest))))"
  by pat_completeness auto
termination
  by (relation "measure (\<lambda>(m, query). length query)") (auto simp: Cut_shorter)

declare parseQuery.simps [simp del]

definition ParseQuery :: "string \<Rightarrow> Values" where
  "ParseQuery query = parseQuery [] query"

subsection \<open>Values.Encode\<close>

text \<open>
  \<open>Encode\<close> returns the empty string for an empty map; otherwise it visits the keys
  in sorted order (bytewise) and, for each value, writes \<open>&\<close> when the
  buffer is not empty, then the escaped key, \<open>=\<close> and the escaped value.
\<close>

fun writeValues :: "string \<Rightarrow> string list \<Rightarrow> string \<Rightarrow> string" where
  "writeValues keyEscaped [] buf = buf"
| "writeValues keyEscaped (v # vs) buf =
     writeValues keyEscaped vs
       ((if length buf > 0 then buf @ ''&'' else buf) @ keyEscaped @ ''='' @ QueryEscape v)"

fun writeKeys :: "Values \<Rightarrow> string list \<Rightarrow> string \<Rightarrow> string" where
  "writeKeys v [] buf = buf"
| "writeKeys v (k # ks) buf = writeKeys v ks (writeValues (QueryEscape k) (index v k) buf)"

definition Encode :: "Values \<Rightarrow> string" where
  "Encode v = (if length v = 0 then [] else writeKeys v (sort (map fst v)) [])"

subsection \<open>strings.Join and strconv.Itoa\<close>

text \<open>
  \<open>Join\<close> writes the elements in their order with the separator between neighbours.
  \<open>Itoa\<close> is the decimal form of an integer; \<open>formatBits\<close> writes the digits of a
  natural number, the most significant first.
\<close>

fun Join :: "string list \<Rightarrow> string \<Rightarrow> string" where
  "Join [] sep = []"
| "Join [x] sep = x"
| "Join (x # y # ys) sep = x @ sep @ Join (y # ys) sep"

function formatBits :: "nat \<Rightarrow> string" where
  "formatBits u =
     (if u < 10 then [char_of (of_char (CHR ''0'') + u)]
      else formatBits (u div 10) @ [char_of (of_char (CHR ''0'') + u mod 10)])"
  by pat_completeness auto
termination
  by (relation "measure (\<lambda>u. u)") auto

declare formatBits.simps [simp del]

definition Itoa :: "int \<Rightarrow> string" where
  "Itoa i = (if i < 0 then CHR ''-'' # formatBits (nat (- i)) else formatBits (nat i))"

subsection \<open>time.Time\<close>

text \<open>
  A time as the instant it denotes (seconds since January 1, year 1, 00:00:00 UTC, and
  nanoseconds) with the name of its location. \<open>IsZero\<close> is
  \<open>t.sec() == 0 && t.nsec() == 0\<close>. The layout \<open>time.RFC3339\<close> is not modelled:
  \<open>Format(time.RFC3339)\<close> is the field \<open>FormatRFC3339\<close> of the lookups below, any
  function from times to strings.
\<close>

record Time =
  sec :: int
  nsec :: int
  loc :: string

definition IsZero :: "Time \<Rightarrow> bool" where
  "IsZero t = (sec t = 0 \<and> nsec t = 0)"

section \<open>Search and lookup options (v2/tweet\_search.go, v2/user\_params.go)\<close>

text \<open>
  The element types \<open>Expansion\<close>, \<open>MediaField\<close>, \<open>PlaceField\<close>, \<open>PollField\<close>,
  \<open>TweetField\<close> and \<open>UserField\<close> are declared outside the two source files: they are
  the type parameters \<open>'e\<close>, \<open>'m\<close>, \<open>'pl\<close>, \<open>'po\<close>, \<open>'tw\<close>, \<open>'u\<close>, and the string each
  element stands for is given by a lookup.
\<close>

record ('e, 'm, 'pl, 'po, 'tw, 'u) Lookups =
  expansionString :: "'e \<Rightarrow> string"
  mediaFieldString :: "'m \<Rightarrow> string"
  placeFieldString :: "'pl \<Rightarrow> string"
  pollFieldString :: "'po \<Rightarrow> string"
  tweetFieldString :: "'tw \<Rightarrow> string"
  userFieldString :: "'u \<Rightarrow> string"
  FormatRFC3339 :: "Time \<Rightarrow> string"

text \<open>
  Modelled from the spec: the helpers \<open>expansionStringArray\<close>, \<open>mediaFieldStringArray\<close>,
  \<open>placeFieldStringArray\<close>, \<open>pollFieldStringArray\<close>, \<open>tweetFieldStringArray\<close> and
  \<open>userFieldStringArray\<close> are not in the two source files. The spec treats the names as
  opaque string-producing lookups whose results are joined in the order supplied: each
  helper maps its slice, element by element, to the strings of the elements.
\<close>

definition expansionStringArray ::
  "('e, 'm, 'pl, 'po, 'tw, 'u) Lookups \<Rightarrow> 'e list \<Rightarrow> string list" where
  "expansionStringArray x arr = map (expansionString x) arr"

definition mediaFieldStringArray ::
  "('e, 'm, 'pl, 'po, 'tw, 'u) Lookups \<Rightarrow> 'm list \<Rightarrow> string list" where
  "mediaFieldStringArray x arr = map (mediaFieldString x) arr"

definition placeFieldStringArray ::
  "('e, 'm, 'pl, 'po, 'tw, 'u) Lookups \<Rightarrow> 'pl list \<Rightarrow> string list" where
  "placeFieldStringArray x arr = map (placeFieldString x) arr"

definition pollFieldStringArray ::
  "('e, 'm, 'pl, 'po, 'tw, 'u) Lookups \<Rightarrow> 'po list \<Rightarrow> string list" where
  "pollFieldStringArray x arr = map (pollFieldString x) arr"

definition tweetFieldStringArray ::
  "('e, 'm, 'pl, 'po, 'tw, 'u) Lookups \<Rightarrow> 'tw list \<Rightarrow> string list" where
  "tweetFieldStringArray x arr = map (tweetFieldString x) arr"

definition userFieldStringArray ::
  "('e, 'm, 'pl, 'po, 'tw, 'u) Lookups \<Rightarrow> 'u list \<Rightarrow> string list" where
  "userFieldStringArray x arr = map (userFieldString x) arr"

text \<open>
  Of the request, \<open>addQuery\<close> reads and writes \<open>req.URL.RawQuery\<close> only.
  \<open>Query\<close> is \<open>req.URL.Query()\<close>.
\<close>

record Request =
  RawQuery :: string

definition Query :: "Request \<Rightarrow> Values" where
  "Query req = ParseQuery (RawQuery req)"

record ('e, 'tw, 'u) UserLookupOpts =
  Expansions :: "'e list"
  TweetFields :: "'tw list"
  UserFields :: "'u list"

definition UserLookupOpts_addQuery ::
  "('e, 'm, 'pl, 'po, 'tw, 'u) Lookups \<Rightarrow> ('e, 'tw, 'u) UserLookupOpts \<Rightarrow> Request \<Rightarrow> Request" where
  "UserLookupOpts_addQuery x u req =
     (let q = Query req;
          q = (if length (UserLookupOpts.Expansions u) > 0
               then Add q ''expansions''
                      (Join (expansionStringArray x (UserLookupOpts.Expansions u)) '','')
               else q);
          q = (if length (UserLookupOpts.TweetFields u) > 0
               then Add q ''tweet.fields''
                      (Join (tweetFieldStringArray x (UserLookupOpts.TweetFields u)) '','')
               else q);
          q = (if length (UserLookupOpts.UserFields u) > 0
               then Add q ''user.fields''
                      (Join (userFieldStringArray x (UserLookupOpts.UserFields u)) '','')
               else q)
      in if length q > 0 then req\<lparr>RawQuery := Encode q\<rparr> else req)"

record ('e, 'm, 'pl, 'po, 'tw, 'u) TweetRecentSearchOpts =
  Expansions :: "'e list"
  MediaFields :: "'m list"
  PlaceFields :: "'pl list"
  PollFields :: "'po list"
  TweetFields :: "'tw list"
  UserFields :: "'u list"
  StartTime :: Time
  EndTime :: Time
  SortOrder :: string
  MaxResults :: int
  NextToken :: string
  SinceID :: string
  UntilID :: string

definition TweetRecentSearchOpts_addQuery ::
  "('e, 'm, 'pl, 'po, 'tw, 'u) Lookups \<Rightarrow> ('e, 'm, 'pl, 'po, 'tw, 'u) TweetRecentSearchOpts
     \<Rightarrow> Request \<Rightarrow> Request" where
  "TweetRecentSearchOpts_addQuery x t req =
     (let q = Query req;
          q = (if length (TweetRecentSearchOpts.Expansions t) > 0
               then Add q ''expansions''
                      (Join (expansionStringArray x (TweetRecentSearchOpts.Expansions t)) '','')
               else q);
          q = (if length (MediaFields t) > 0
               then Add q ''media.fields'' (Join (mediaFieldStringArray x (MediaFields t)) '','')
               else q);
          q = (if length (PlaceFields t) > 0
               then Add q ''place.fields'' (Join (placeFieldStringArray x (PlaceFields t)) '','')
               else q);
          q = (if length (PollFields t) > 0
               then Add q ''poll.fields'' (Join (pollFieldStringArray x (PollFields t)) '','')
               else q);
          q = (if length (TweetRecentSearchOpts.TweetFields t) > 0
               then Add q ''tweet.fields''
                      (Join (tweetFieldStringArray x (TweetRecentSearchOpts.TweetFields t)) '','')
               else q);
          q = (if length (TweetRecentSearchOpts.UserFields t) > 0
               then Add q ''user.fields''
                      (Join (userFieldStringArray x (TweetRecentSearchOpts.UserFields t)) '','')
               else q);
          q = (if \<not> IsZero (StartTime t)
               then Add q ''start_time'' (FormatRFC3339 x (StartTime t)) else q);
          q = (if \<not> IsZero (EndTime t)
               then Add q ''end_time'' (FormatRFC3339 x (EndTime t)) else q);
          q = (if MaxResults t > 0 then Add q ''max_results'' (Itoa (MaxResults t)) else q);
          q = (if length (TweetRecentSearchOpts.NextToken t) > 0
               then Add q ''next_token'' (TweetRecentSearchOpts.NextToken t) else q);
          q = (if length (SinceID t) > 0 then Add q ''since_id'' (SinceID t) else q);
          q = (if length (UntilID t) > 0 then Add q ''until_id'' (UntilID t) else q);
          q = (if length (SortOrder t) > 0 then Add q ''sort_order'' (SortOrder t) else q)
      in if length q > 0 then req\<lparr>RawQuery := Encode q\<rparr> else req)"

text \<open>
  \<open>TweetSearchOpts\<close> (full-archive search) declares the same fields as
  \<open>TweetRecentSearchOpts\<close>, and its \<open>addQuery\<close> has the same body, statement for
  statement.
\<close>

type_synonym ('e, 'm, 'pl, 'po, 'tw, 'u) TweetSearchOpts =
  "('e, 'm, 'pl, 'po, 'tw, 'u) TweetRecentSearchOpts"

definition TweetSearchOpts_addQuery ::
  "('e, 'm, 'pl, 'po, 'tw, 'u) Lookups \<Rightarrow> ('e, 'm, 'pl, 'po, 'tw, 'u) TweetSearchOpts
     \<Rightarrow> Request \<Rightarrow> Request" where
  "TweetSearchOpts_addQuery x t req =
     (let q = Query req;
          q = (if length (TweetRecentSearchOpts.Expansions t) > 0
               then Add q ''expansions''
                      (Join (expansionStringArray x (TweetRecentSearchOpts.Expansions t)) '','')
               else q);
          q = (if length (MediaFields t) > 0
               then Add q ''media.fields'' (Join (mediaFieldStringArray x (MediaFields t)) '','')
               else q);
          q = (if length (PlaceFields t) > 0
               then Add q ''place.fields'' (Join (placeFieldStringArray x (PlaceFields t)) '','')
               else q);
          q = (if length (PollFields t) > 0
               then Add q ''poll.fields'' (Join (pollFieldStringArray x (PollFields t)) '','')
               else q);
          q = (if length (TweetRecentSearchOpts.TweetFields t) > 0
               then Add q ''tweet.fields''
                      (Join (tweetFieldStringArray x (TweetRecentSearchOpts.TweetFields t)) '','')
               else q);
          q = (if length (TweetRecentSearchOpts.UserFields t) > 0
               then Add q ''user.fields''
                      (Join (userFieldStringArray x (TweetRecentSearchOpts.UserFields t)) '','')
               else q);
          q = (if \<not> IsZero (StartTime t)
               then Add q ''start_time'' (FormatRFC3339 x (StartTime t)) else q);
          q = (if \<not> IsZero (EndTime t)
               then Add q ''end_time'' (FormatRFC3339 x (EndTime t)) else q);
          q = (if MaxResults t > 0 then Add q ''max_results'' (Itoa (MaxResults t)) else q);
          q = (if length (TweetRecentSearchOpts.NextToken t) > 0
               then Add q ''next_token'' (TweetRecentSearchOpts.NextToken t) else q);
          q = (if length (SinceID t) > 0 then Add q ''since_id'' (SinceID t) else q);
          q = (if length (UntilID t) > 0 then Add q ''until_id'' (UntilID t) else q);
          q = (if length (SortOrder t) > 0 then Add q ''sort_order'' (SortOrder t) else q)
      in if length q > 0 then req\<lparr>RawQuery := Encode q\<rparr> else req)"

text \<open>The two sort orders the package names; \<open>TweetSearchSortOrder\<close> is a string type.\<close>

definition TweetSearchSortOrderRecency :: string where
  "TweetSearchSortOrderRecency = ''recency''"

definition TweetSearchSortOrderRelevancy :: string where
  "TweetSearchSortOrderRelevancy = ''relevancy''"

section \<open>Stream rules and rule identifiers (v2/tweet\_search.go)\<close>

text \<open>
  Go errors. \<open>ErrParameter\<close> is the package's sentinel error (declared outside the two
  source files); \<open>Errorf fmt e\<close> is the value of \<open>fmt.Errorf(fmt, e)\<close> for a format
  string with one \<open>%w\<close> verb: an error that carries the format and wraps \<open>e\<close>.
  A Go \<open>error\<close> result is an \<open>error option\<close>, \<open>None\<close> being \<open>nil\<close>.
\<close>

datatype error = ErrParameter | Errorf string error

text \<open>\<open>errors.Is\<close>: the target is the error itself or is found along its chain of
  wrapped errors.\<close>

fun Is :: "error \<Rightarrow> error \<Rightarrow> bool" where
  "Is ErrParameter target = (target = ErrParameter)"
| "Is (Errorf f e) target = (target = Errorf f e \<or> Is e target)"

record TweetSearchStreamRule =
  Value :: string
  Tag :: string

definition TweetSearchStreamRule_validate :: "TweetSearchStreamRule \<Rightarrow> error option" where
  "TweetSearchStreamRule_validate t =
     (if length (Value t) = 0
      then Some (Errorf ''tweet search stream rule value is required: %w'' ErrParameter)
      else None)"

text \<open>\<open>for _, rule := range t\<close>: the first error met is returned at once.\<close>

fun tweetSearchStreamRules_validate :: "TweetSearchStreamRule list \<Rightarrow> error option" where
  "tweetSearchStreamRules_validate [] = None"
| "tweetSearchStreamRules_validate (rule # t) =
     (case TweetSearchStreamRule_validate rule of
        Some err \<Rightarrow> Some err
      | None \<Rightarrow> tweetSearchStreamRules_validate t)"

text \<open>\<open>type TweetSearchStreamRuleID string\<close>: a named string type; the conversion
  \<open>string(id)\<close> keeps the bytes.\<close>

type_synonym TweetSearchStreamRuleID = string

definition string_of_id :: "TweetSearchStreamRuleID \<Rightarrow> string" where
  "string_of_id i = i"

definition TweetSearchStreamRuleID_validate :: "TweetSearchStreamRuleID \<Rightarrow> error option" where
  "TweetSearchStreamRuleID_validate t =
     (if length t = 0
      then Some (Errorf ''tweet search rule id is required %w'' ErrParameter)
      else None)"

fun tweetSearchStreamRuleIDs_validate :: "TweetSearchStreamRuleID list \<Rightarrow> error option" where
  "tweetSearchStreamRuleIDs_validate [] = None"
| "tweetSearchStreamRuleIDs_validate (i # t) =
     (case TweetSearchStreamRuleID_validate i of
        Some err \<Rightarrow> Some err
      | None \<Rightarrow> tweetSearchStreamRuleIDs_validate t)"

text \<open>
  \<open>toStringArray\<close>: \<open>ids := make([]string, len(t))\<close>, then \<open>ids[i] = string(id)\<close> for
  each index and element of the range loop. The loop carries the index, the elements
  still to visit and the slice written so far.
\<close>

fun toStringArray_loop ::
  "nat \<Rightarrow> TweetSearchStreamRuleID list \<Rightarrow> string list \<Rightarrow> string list" where
  "toStringArray_loop i [] ids = ids"
| "toStringArray_loop i (x # t) ids = toStringArray_loop (Suc i) t (ids[i := string_of_id x])"

definition tweetSearchStreamRuleIDs_toStringArray ::
  "TweetSearchStreamRuleID list \<Rightarrow> string list" where
  "tweetSearchStreamRuleIDs_toStringArray t =
     toStringArray_loop 0 t (replicate (length t) [])"

section \<open>The recent-search response decoder (v2/tweet\_search.go)\<close>

text \<open>
  The structs \<open>HTTPError\<close>, \<open>ErrorResponse\<close>, \<open>ResponseDecodeError\<close>, \<open>RateLimit\<close> and
  \<open>TweetRaw\<close> and the three header readers are declared outside the two source files.
  A rate-limit pointer is a value of a type parameter \<open>'rl\<close>, the decoded raw payload
  one of \<open>'raw\<close>, a JSON decoding error one of \<open>'jerr\<close>. The records hold the fields
  that \<open>Build\<close> writes; \<open>Envelope\<close> stands for every field of \<open>ErrorResponse\<close> that
  only \<open>json.Unmarshal\<close> fills from the body (type parameter \<open>'env\<close>).
\<close>

record 'rl HTTPError =
  StatusCode :: int
  RateLimit :: 'rl
  DailyAppRateLimit :: 'rl
  DailyUserRateLimit :: 'rl

record ('env, 'rl) ErrorResponse =
  Envelope :: 'env
  StatusCode :: int
  RateLimit :: 'rl
  DailyAppRateLimit :: 'rl
  DailyUserRateLimit :: 'rl

record ('jerr, 'rl) ResponseDecodeError =
  Name :: string
  Err :: 'jerr
  RateLimit :: 'rl

record TweetRecentSearchMeta =
  NewestID :: string
  OldestID :: string
  ResultCount :: int
  NextToken :: string

text \<open>\<open>Raw\<close> and \<open>Meta\<close> are pointers: \<open>None\<close> is \<open>nil\<close>.\<close>

record ('raw, 'rl) TweetRecentSearchResponse =
  Raw :: "'raw option"
  Meta :: "TweetRecentSearchMeta option"
  RateLimit :: 'rl

text \<open>
  What \<open>Build\<close> calls and the source files do not define:
  the three header readers, and \<open>json.Unmarshal\<close> at the three targets it is given
  (a zero \<open>ErrorResponse\<close>, a zero \<open>TweetRaw\<close>, and the response struct as populated
  just before the call). Each decoding yields a JSON error (\<open>Inl\<close>) or the filled target.
\<close>

record ('hdr, 'rl, 'env, 'raw, 'jerr) Decoding =
  rateFromHeader :: "'hdr \<Rightarrow> 'rl"
  dailyAppRateFromHeader :: "'hdr \<Rightarrow> 'rl"
  dailyUserRateFromHeader :: "'hdr \<Rightarrow> 'rl"
  unmarshalErrorResponse :: "string \<Rightarrow> 'jerr + ('env, 'rl) ErrorResponse"
  unmarshalTweetRaw :: "string \<Rightarrow> 'jerr + 'raw"
  unmarshalResponse ::
    "string \<Rightarrow> ('raw, 'rl) TweetRecentSearchResponse
       \<Rightarrow> 'jerr + ('raw, 'rl) TweetRecentSearchResponse"

text \<open>The four kinds of error value \<open>Build\<close> returns; \<open>ReadError f e\<close> is
  \<open>fmt.Errorf(f, e)\<close> wrapping the reader's error.\<close>

datatype ('rerr, 'rl, 'env, 'jerr) build_error =
    ReadError string 'rerr
  | HTTPErrorPtr "'rl HTTPError"
  | ErrorResponsePtr "('env, 'rl) ErrorResponse"
  | ResponseDecodeErrorPtr "('jerr, 'rl) ResponseDecodeError"

definition StatusOK :: int where
  "StatusOK = 200"

text \<open>\<open>body\<close> is the outcome of \<open>io.ReadAll\<close> on the reader: its error or all its bytes.\<close>

definition Build ::
  "('hdr, 'rl, 'env, 'raw, 'jerr) Decoding \<Rightarrow> int \<Rightarrow> 'hdr \<Rightarrow> 'rerr + string
     \<Rightarrow> ('rerr, 'rl, 'env, 'jerr) build_error + ('raw, 'rl) TweetRecentSearchResponse" where
  "Build d statusCode headers body =
     (case body of
        Inl err \<Rightarrow> Inl (ReadError ''tweet recent search response read: %w'' err)
      | Inr buffer \<Rightarrow>
          (let rl = rateFromHeader d headers;
               darl = dailyAppRateFromHeader d headers;
               durl = dailyUserRateFromHeader d headers
           in if statusCode \<noteq> StatusOK then
                (case unmarshalErrorResponse d buffer of
                   Inl err \<Rightarrow>
                     Inl (HTTPErrorPtr
                       \<lparr>HTTPError.StatusCode = statusCode,
                        HTTPError.RateLimit = rl,
                        HTTPError.DailyAppRateLimit = darl,
                        HTTPError.DailyUserRateLimit = durl\<rparr>)
                 | Inr e \<Rightarrow>
                     Inl (ErrorResponsePtr
                       (e\<lparr>ErrorResponse.StatusCode := statusCode,
                          ErrorResponse.RateLimit := rl,
                          ErrorResponse.DailyAppRateLimit := darl,
                          ErrorResponse.DailyUserRateLimit := durl\<rparr>)))
              else
                (case unmarshalTweetRaw d buffer of
                   Inl err \<Rightarrow>
                     Inl (ResponseDecodeErrorPtr
                       \<lparr>Name = ''tweet recent search'', Err = err,
                        ResponseDecodeError.RateLimit = rl\<rparr>)
                 | Inr raw \<Rightarrow>
                     (case unmarshalResponse d buffer
                             \<lparr>Raw = Some raw,
                              Meta = Some \<lparr>NewestID = [], OldestID = [], ResultCount = 0,
                                           TweetRecentSearchMeta.NextToken = []\<rparr>,
                              TweetRecentSearchResponse.RateLimit = rl\<rparr> of
                        Inl err \<Rightarrow>
                          Inl (ResponseDecodeErrorPtr
                            \<lparr>Name = ''tweet recent search'', Err = err,
                             ResponseDecodeError.RateLimit = rl\<rparr>)
                      | Inr recentSearch \<Rightarrow> Inr recentSearch))))"

section \<open>Vocabulary of the statements\<close>

text \<open>
  \<open>occurrences key raw\<close> counts the parameters named \<open>key\<close> in a raw query string, as
  \<open>url.ParseQuery\<close> reads it.
\<close>

definition occurrences :: "string \<Rightarrow> string \<Rightarrow> nat" where
  "occurrences key raw = length (index (ParseQuery raw) key)"

text \<open>
  The spec's table of the optional fields: the documented key of each field and the test
  "non-zero for its type" (a non-empty list or string, a non-zero time, a positive
  integer). No other key belongs to a field.
\<close>

definition nonZeroField ::
  "('e, 'm, 'pl, 'po, 'tw, 'u) TweetRecentSearchOpts \<Rightarrow> string \<Rightarrow> bool" where
  "nonZeroField t key =
     (if key = ''expansions'' then TweetRecentSearchOpts.Expansions t \<noteq> []
      else if key = ''media.fields'' then MediaFields t \<noteq> []
      else if key = ''place.fields'' then PlaceFields t \<noteq> []
      else if key = ''poll.fields'' then PollFields t \<noteq> []
      else if key = ''tweet.fields'' then TweetRecentSearchOpts.TweetFields t \<noteq> []
      else if key = ''user.fields'' then TweetRecentSearchOpts.UserFields t \<noteq> []
      else if key = ''start_time'' then \<not> IsZero (StartTime t)
      else if key = ''end_time'' then \<not> IsZero (EndTime t)
      else if key = ''max_results'' then 0 < MaxResults t
      else if key = ''next_token'' then TweetRecentSearchOpts.NextToken t \<noteq> []
      else if key = ''since_id'' then SinceID t \<noteq> []
      else if key = ''until_id'' then UntilID t \<noteq> []
      else if key = ''sort_order'' then SortOrder t \<noteq> []
      else False)"

definition userNonZeroField :: "('e, 'tw, 'u) UserLookupOpts \<Rightarrow> string \<Rightarrow> bool" where
  "userNonZeroField u key =
     (if key = ''expansions'' then UserLookupOpts.Expansions u \<noteq> []
      else if key = ''tweet.fields'' then UserLookupOpts.TweetFields u \<noteq> []
      else if key = ''user.fields'' then UserLookupOpts.UserFields u \<noteq> []
      else False)"

text \<open>Every field of the options is at the zero value of its type (or, for the
  result cap, not positive).\<close>

definition allZero :: "('e, 'm, 'pl, 'po, 'tw, 'u) TweetRecentSearchOpts \<Rightarrow> bool" where
  "allZero t =
     (TweetRecentSearchOpts.Expansions t = [] \<and> MediaFields t = [] \<and> PlaceFields t = []
      \<and> PollFields t = [] \<and> TweetRecentSearchOpts.TweetFields t = []
      \<and> TweetRecentSearchOpts.UserFields t = [] \<and> IsZero (StartTime t) \<and> IsZero (EndTime t)
      \<and> MaxResults t \<le> 0 \<and> TweetRecentSearchOpts.NextToken t = [] \<and> SinceID t = []
      \<and> UntilID t = [] \<and> SortOrder t = [])"

definition userAllZero :: "('e, 'tw, 'u) UserLookupOpts \<Rightarrow> bool" where
  "userAllZero u =
     (UserLookupOpts.Expansions u = [] \<and> UserLookupOpts.TweetFields u = []
      \<and> UserLookupOpts.UserFields u = [])"

text \<open>The Go zero values of the option structs and of a time.\<close>

definition zeroTime :: Time where
  "zeroTime = \<lparr>sec = 0, nsec = 0, loc = []\<rparr>"

definition zeroOpts :: "('e, 'm, 'pl, 'po, 'tw, 'u) TweetRecentSearchOpts" where
  "zeroOpts = \<lparr>TweetRecentSearchOpts.Expansions = [], MediaFields = [], PlaceFields = [],
     PollFields = [], TweetRecentSearchOpts.TweetFields = [],
     TweetRecentSearchOpts.UserFields = [], StartTime = zeroTime, EndTime = zeroTime,
     SortOrder = [], MaxResults = 0,
     TweetRecentSearchOpts.NextToken = [], SinceID = [], UntilID = []\<rparr>"

definition zeroUserOpts :: "('e, 'tw, 'u) UserLookupOpts" where
  "zeroUserOpts = \<lparr>UserLookupOpts.Expansions = [], UserLookupOpts.TweetFields = [],
     UserLookupOpts.UserFields = []\<rparr>"

subsection \<open>Auxiliary definitions for the proofs\<close>

text \<open>
  One guarded \<open>q.Add\<close>; the guarded additions of each \<open>addQuery\<close> in the order of the
  source; and the values they put under a key of an empty map.
\<close>

definition addIf :: "bool \<Rightarrow> string \<Rightarrow> string \<Rightarrow> Values \<Rightarrow> Values" where
  "addIf b k v q = (if b then Add q k v else q)"

definition recent_adds ::
  "('e, 'm, 'pl, 'po, 'tw, 'u) Lookups \<Rightarrow> ('e, 'm, 'pl, 'po, 'tw, 'u) TweetRecentSearchOpts
     \<Rightarrow> Values \<Rightarrow> Values" where
  "recent_adds x t q =
     addIf (length (SortOrder t) > 0) ''sort_order'' (SortOrder t)
      (addIf (length (UntilID t) > 0) ''until_id'' (UntilID t)
      (addIf (length (SinceID t) > 0) ''since_id'' (SinceID t)
      (addIf (length (TweetRecentSearchOpts.NextToken t) > 0) ''next_token''
         (TweetRecentSearchOpts.NextToken t)
      (addIf (MaxResults t > 0) ''max_results'' (Itoa (MaxResults t))
      (addIf (\<not> IsZero (EndTime t)) ''end_time'' (FormatRFC3339 x (EndTime t))
      (addIf (\<not> IsZero (StartTime t)) ''start_time'' (FormatRFC3339 x (StartTime t))
      (addIf (length (TweetRecentSearchOpts.UserFields t) > 0) ''user.fields''
         (Join (userFieldStringArray x (TweetRecentSearchOpts.UserFields t)) '','')
      (addIf (length (TweetRecentSearchOpts.TweetFields t) > 0) ''tweet.fields''
         (Join (tweetFieldStringArray x (TweetRecentSearchOpts.TweetFields t)) '','')
      (addIf (length (PollFields t) > 0) ''poll.fields''
         (Join (pollFieldStringArray x (PollFields t)) '','')
      (addIf (length (PlaceFields t) > 0) ''place.fields''
         (Join (placeFieldStringArray x (PlaceFields t)) '','')
      (addIf (length (MediaFields t) > 0) ''media.fields''
         (Join (mediaFieldStringArray x (MediaFields t)) '','')
      (addIf (length (TweetRecentSearchOpts.Expansions t) > 0) ''expansions''
         (Join (expansionStringArray x (TweetRecentSearchOpts.Expansions t)) '','')
       q))))))))))))"

definition recent_emitted ::
  "('e, 'm, 'pl, 'po, 'tw, 'u) Lookups \<Rightarrow> ('e, 'm, 'pl, 'po, 'tw, 'u) TweetRecentSearchOpts
     \<Rightarrow> string \<Rightarrow> string list" where
  "recent_emitted x t key = index (recent_adds x t []) key"

definition user_adds ::
  "('e, 'm, 'pl, 'po, 'tw, 'u) Lookups \<Rightarrow> ('e, 'tw, 'u) UserLookupOpts \<Rightarrow> Values \<Rightarrow> Values" where
  "user_adds x u q =
     addIf (length (UserLookupOpts.UserFields u) > 0) ''user.fields''
        (Join (userFieldStringArray x (UserLookupOpts.UserFields u)) '','')
      (addIf (length (UserLookupOpts.TweetFields u) > 0) ''tweet.fields''
         (Join (tweetFieldStringArray x (UserLookupOpts.TweetFields u)) '','')
      (addIf (length (UserLookupOpts.Expansions u) > 0) ''expansions''
         (Join (expansionStringArray x (UserLookupOpts.Expansions u)) '','')
       q))"

definition user_emitted ::
  "('e, 'm, 'pl, 'po, 'tw, 'u) Lookups \<Rightarrow> ('e, 'tw, 'u) UserLookupOpts \<Rightarrow> string \<Rightarrow> string list" where
  "user_emitted x u key = index (user_adds x u []) key"

text \<open>
  What the loop body of \<open>parseQuery\<close> does with one segment; the buffer step of
  \<open>Encode\<close>; one encoded pair; the pairs \<open>Encode\<close> writes for a list of keys; and
  the invariant of a parameter map: each key once, no key with an empty value list.
\<close>

definition parseSegment :: "Values \<Rightarrow> string \<Rightarrow> Values" where
  "parseSegment m key =
     (if CHR '';'' \<in> set key then m
      else if key = [] then m
      else (case QueryUnescape (fst (Cut key (CHR ''=''))) of
              None \<Rightarrow> m
            | Some k \<Rightarrow>
                (case QueryUnescape (snd (Cut key (CHR ''=''))) of
                   None \<Rightarrow> m
                 | Some v \<Rightarrow> Add m k v)))"

definition sep_append :: "string \<Rightarrow> string \<Rightarrow> string" where
  "sep_append buf s = (if length buf > 0 then buf @ ''&'' else buf) @ s"

definition encodePair :: "string \<times> string \<Rightarrow> string" where
  "encodePair p = QueryEscape (fst p) @ ''='' @ QueryEscape (snd p)"

definition pairs_of :: "Values \<Rightarrow> string list \<Rightarrow> (string \<times> string) list" where
  "pairs_of v ks = concat (map (\<lambda>k. map (Pair k) (index v k)) ks)"

definition wf_values :: "Values \<Rightarrow> bool" where
  "wf_values v = (distinct (map fst v) \<and> [] \<notin> set (map snd v))"

text \<open>What the proofs need of each of the sixteen digits of \<open>upperhex\<close>.\<close>

definition hex_digit_ok :: "nat \<Rightarrow> bool" where
  "hex_digit_ok n =
     (ishex (upperhex ! n) \<and> unhex (upperhex ! n) = n \<and> upperhex ! n \<noteq> CHR ''&''
      \<and> upperhex ! n \<noteq> CHR ''='' \<and> upperhex ! n \<noteq> CHR '';'')"

subsection \<open>Sample inputs\<close>

text \<open>
  Lookups for names that are their own strings, with a stand-in time formatter (the
  seconds in decimal); option values with every list set; and a decoding in which the
  header readers measure the header text and the JSON decoders accept or reject fixed
  bodies.
\<close>

definition plainLookups :: "(string, string, string, string, string, string) Lookups" where
  "plainLookups = \<lparr>expansionString = (\<lambda>e. e), mediaFieldString = (\<lambda>e. e),
     placeFieldString = (\<lambda>e. e), pollFieldString = (\<lambda>e. e), tweetFieldString = (\<lambda>e. e),
     userFieldString = (\<lambda>e. e), FormatRFC3339 = (\<lambda>t. Itoa (sec t))\<rparr>"

definition sampleOpts ::
  "(string, string, string, string, string, string) TweetRecentSearchOpts" where
  "sampleOpts = zeroOpts\<lparr>TweetRecentSearchOpts.Expansions := [''geo.place_id'', ''author_id''],
     MediaFields := [''url'', ''height''], PlaceFields := [''name''],
     PollFields := [''options'', ''id''],
     TweetRecentSearchOpts.TweetFields := [''text'', ''created_at'', ''id''],
     TweetRecentSearchOpts.UserFields := [''username'', ''name'']\<rparr>"

definition sampleUserOpts :: "(string, string, string) UserLookupOpts" where
  "sampleUserOpts = \<lparr>UserLookupOpts.Expansions = [''pinned_tweet_id''],
     UserLookupOpts.TweetFields = [''text'', ''id''],
     UserLookupOpts.UserFields = [''username'', ''id'', ''name'']\<rparr>"

definition sampleDecoding :: "(string, nat, string, string, string) Decoding" where
  "sampleDecoding =
     \<lparr>rateFromHeader = length,
      dailyAppRateFromHeader = (\<lambda>h. length h + 1),
      dailyUserRateFromHeader = (\<lambda>h. length h + 2),
      unmarshalErrorResponse = (\<lambda>b. if b = ''{}''
         then Inr \<lparr>Envelope = ''envelope'', ErrorResponse.StatusCode = 0,
                   ErrorResponse.RateLimit = 0, ErrorResponse.DailyAppRateLimit = 0,
                   ErrorResponse.DailyUserRateLimit = 0\<rparr>
         else Inl ''invalid character''),
      unmarshalTweetRaw = (\<lambda>b. if b = ''<'' then Inl ''invalid character'' else Inr ''raw''),
      unmarshalResponse = (\<lambda>b r. if b = ''[]'' then Inl ''cannot unmarshal array'' else Inr r)\<rparr>"

section \<open>Properties of the query-string functions\<close>

subsection \<open>Parameter maps\<close>

lemma index_Add:
  "index (Add m k v) key = (if key = k then index m k @ [v] else index m key)"
  by (induction m) auto

lemma keys_Add:
  "map fst (Add m k v) = (if k \<in> fst ` set m then map fst m else map fst m @ [k])"
proof (induction m)
  case Nil
  show ?case by simp
next
  case (Cons p m)
  obtain a b where p: "p = (a, b)" by (cases p)
  show ?case
  proof (cases "a = k")
    case True
    then show ?thesis using p by simp
  next
    case False
    then have "(k \<in> fst ` set (p # m)) = (k \<in> fst ` set m)" using p by auto
    then show ?thesis using False p Cons by simp
  qed
qed

lemma vals_Add: "[] \<notin> snd ` set m \<Longrightarrow> [] \<notin> snd ` set (Add m k v)"
proof (induction m)
  case Nil
  show ?case by simp
next
  case (Cons p m)
  obtain a b where p: "p = (a, b)" by (cases p)
  from Cons.prems p have b: "b \<noteq> []" and m: "[] \<notin> snd ` set m" by auto
  show ?case
  proof (cases "a = k")
    case True
    then show ?thesis using p b m by simp
  next
    case False
    then show ?thesis using p b Cons.IH [OF m] by auto
  qed
qed

lemma wf_values_Add: "wf_values m \<Longrightarrow> wf_values (Add m k v)"
  by (simp add: wf_values_def keys_Add vals_Add)

lemma index_notin: "key \<notin> fst ` set v \<Longrightarrow> index v key = []"
  by (induction v) auto

lemma index_in: "[] \<notin> snd ` set v \<Longrightarrow> key \<in> fst ` set v \<Longrightarrow> index v key \<noteq> []"
proof (induction v)
  case Nil
  then show ?case by simp
next
  case (Cons p v)
  obtain a b where p: "p = (a, b)" by (cases p)
  from Cons.prems p have b: "b \<noteq> []" and m: "[] \<notin> snd ` set v" by auto
  show ?case
  proof (cases "a = key")
    case True
    then show ?thesis using p b by simp
  next
    case False
    then have "key \<in> fst ` set v" using Cons.prems(2) p by auto
    then show ?thesis using False p Cons.IH [OF m] by simp
  qed
qed

lemma keys_by_index: "wf_values v \<Longrightarrow> fst ` set v = {k. index v k \<noteq> []}"
proof -
  assume "wf_values v"
  then have nz: "[] \<notin> snd ` set v" by (simp add: wf_values_def)
  show ?thesis
  proof (intro set_eqI iffI)
    fix k assume "k \<in> fst ` set v"
    then show "k \<in> {k. index v k \<noteq> []}" using index_in [OF nz] by simp
  next
    fix k assume "k \<in> {k. index v k \<noteq> []}"
    then show "k \<in> fst ` set v" using index_notin [of k v] by auto
  qed
qed

subsection \<open>Escaping\<close>

lemma hex_digits_ok: "list_all hex_digit_ok [0..<16]"
  by code_simp

lemma hex_digit_ok_below: "n < 16 \<Longrightarrow> hex_digit_ok n"
  using hex_digits_ok by (simp add: list_all_iff)

lemma upperhex_ishex: "n < 16 \<Longrightarrow> ishex (upperhex ! n)"
  using hex_digit_ok_below [of n] by (simp add: hex_digit_ok_def)

lemma upperhex_unhex: "n < 16 \<Longrightarrow> unhex (upperhex ! n) = n"
  using hex_digit_ok_below [of n] by (simp add: hex_digit_ok_def)

lemma upperhex_plain:
  "n < 16 \<Longrightarrow> upperhex ! n \<noteq> CHR ''&'' \<and> upperhex ! n \<noteq> CHR ''='' \<and> upperhex ! n \<noteq> CHR '';''"
  using hex_digit_ok_below [of n] by (simp add: hex_digit_ok_def)

lemma of_char_div16: "(of_char (c::char) :: nat) div 16 < 16"
proof -
  have "(of_char c :: nat) < 256" by (rule nat_of_char_less_256)
  then show ?thesis by arith
qed

lemma unescaped_plain:
  "\<not> shouldEscape c \<Longrightarrow>
     c \<noteq> CHR ''%'' \<and> c \<noteq> CHR ''+'' \<and> c \<noteq> CHR ''&'' \<and> c \<noteq> CHR ''='' \<and> c \<noteq> CHR '';''"
  by (auto simp: shouldEscape_def)

lemma QueryUnescape_QueryEscape: "QueryUnescape (QueryEscape s) = Some s"
proof (induction s)
  case Nil
  show ?case by simp
next
  case (Cons c s)
  have byte: "char_of ((of_char c :: nat) div 16 * 16 + of_char c mod 16) = c"
    by simp
  show ?case
  proof (cases "c = CHR '' ''")
    case True
    then show ?thesis using Cons by simp
  next
    case False
    show ?thesis
    proof (cases "shouldEscape c")
      case True
      then show ?thesis using False Cons byte
        by (simp add: upperhex_ishex upperhex_unhex of_char_div16)
    next
      case no: False
      then show ?thesis using False Cons unescaped_plain [OF no] by simp
    qed
  qed
qed

lemma QueryEscape_plain:
  "c \<in> set (QueryEscape s) \<Longrightarrow> c \<noteq> CHR ''&'' \<and> c \<noteq> CHR ''='' \<and> c \<noteq> CHR '';''"
proof (induction s)
  case Nil
  then show ?case by simp
next
  case (Cons a s)
  show ?case
  proof (cases "a = CHR '' ''")
    case True
    then show ?thesis using Cons by auto
  next
    case False
    show ?thesis
    proof (cases "shouldEscape a")
      case True
      then show ?thesis
        using False Cons upperhex_plain [OF of_char_div16, of a]
          upperhex_plain [of "of_char a mod 16"]
        by auto
    next
      case no: False
      then show ?thesis using False Cons unescaped_plain [OF no] by auto
    qed
  qed
qed

subsection \<open>Cutting and parsing\<close>

lemma Cut_at_first: "sep \<notin> set s \<Longrightarrow> Cut (s @ sep # t) sep = (s, t)"
  by (induction s) (auto simp: Cut_def)

lemma Cut_absent: "sep \<notin> set s \<Longrightarrow> Cut s sep = (s, [])"
  by (induction s) (auto simp: Cut_def)

lemma parseQuery_Nil: "parseQuery m [] = m"
  by (simp add: parseQuery.simps)

lemma parseQuery_step:
  "query \<noteq> [] \<Longrightarrow>
     parseQuery m query
       = parseQuery (parseSegment m (fst (Cut query (CHR ''&'')))) (snd (Cut query (CHR ''&'')))"
  by (subst parseQuery.simps) (simp add: parseSegment_def Let_def split: option.splits)

lemma parseSegment_Nil: "parseSegment m [] = m"
  by (simp add: parseSegment_def)

lemma parseQuery_single:
  "CHR ''&'' \<notin> set s \<Longrightarrow> parseQuery m s = parseSegment m s"
proof (cases "s = []")
  case True
  then show ?thesis by (simp add: parseQuery_Nil parseSegment_Nil)
next
  case False
  assume "CHR ''&'' \<notin> set s"
  then show ?thesis
    using False by (simp add: parseQuery_step Cut_absent parseQuery_Nil)
qed

lemma parseQuery_append:
  "parseQuery m (a @ CHR ''&'' # b) = parseQuery (parseQuery m a) b"
proof (induction a arbitrary: m rule: length_induct)
  case (1 a)
  show ?case
  proof (cases "CHR ''&'' \<in> set a")
    case False
    then have "parseQuery m (a @ CHR ''&'' # b) = parseQuery (parseSegment m a) b"
      by (simp add: parseQuery_step Cut_at_first)
    then show ?thesis using False by (simp add: parseQuery_single)
  next
    case True
    then obtain key rest where a: "a = key @ CHR ''&'' # rest" and key: "CHR ''&'' \<notin> set key"
      by (auto dest: split_list_first)
    have shorter: "length rest < length a" using a by simp
    have "parseQuery m (a @ CHR ''&'' # b)
          = parseQuery (parseSegment m key) (rest @ CHR ''&'' # b)"
      using Cut_at_first [OF key, of "rest @ CHR ''&'' # b"] a
      by (simp add: parseQuery_step)
    also have "\<dots> = parseQuery (parseQuery (parseSegment m key) rest) b"
      using 1 shorter by blast
    also have "parseQuery (parseSegment m key) rest = parseQuery m a"
      using Cut_at_first [OF key, of rest] a by (simp add: parseQuery_step)
    finally show ?thesis .
  qed
qed

lemma parseQuery_sep_append:
  "CHR ''&'' \<notin> set s \<Longrightarrow> parseQuery m (sep_append buf s) = parseSegment (parseQuery m buf) s"
  by (cases "buf = []")
     (simp_all add: sep_append_def parseQuery_append parseQuery_single parseQuery_Nil)

lemma parseQuery_foldl:
  "(\<And>s. s \<in> set segs \<Longrightarrow> CHR ''&'' \<notin> set s) \<Longrightarrow>
     parseQuery m (foldl sep_append buf segs) = foldl parseSegment (parseQuery m buf) segs"
  by (induction segs arbitrary: buf) (simp_all add: parseQuery_sep_append)

lemma encodePair_no_amp: "CHR ''&'' \<notin> set (encodePair p)"
  using QueryEscape_plain [of "CHR ''&''"] by (auto simp: encodePair_def)

lemma parseSegment_encodePair: "parseSegment m (encodePair (k, v)) = Add m k v"
proof -
  have semi: "CHR '';'' \<notin> set (encodePair (k, v))"
    using QueryEscape_plain [of "CHR '';''"] by (auto simp: encodePair_def)
  have eq: "CHR ''='' \<notin> set (QueryEscape k)"
    using QueryEscape_plain [of "CHR ''=''"] by auto
  have cut: "Cut (encodePair (k, v)) (CHR ''='') = (QueryEscape k, QueryEscape v)"
    using Cut_at_first [OF eq] by (simp add: encodePair_def)
  have ne: "encodePair (k, v) \<noteq> []" by (simp add: encodePair_def)
  show ?thesis
    using semi ne by (simp add: parseSegment_def cut QueryUnescape_QueryEscape)
qed

lemma foldl_parseSegment_pairs:
  "foldl parseSegment m (map encodePair ps) = foldl (\<lambda>m p. Add m (fst p) (snd p)) m ps"
  by (induction ps arbitrary: m) (auto simp: parseSegment_encodePair)

lemma index_foldl_Add:
  "index (foldl (\<lambda>m p. Add m (fst p) (snd p)) m ps) key
     = index m key @ map snd (filter (\<lambda>p. fst p = key) ps)"
  by (induction ps arbitrary: m) (auto simp: index_Add)

subsection \<open>Encoding\<close>

lemma writeValues_foldl:
  "writeValues ke vs buf = foldl sep_append buf (map (\<lambda>v. ke @ ''='' @ QueryEscape v) vs)"
  by (induction vs arbitrary: buf) (simp_all add: sep_append_def)

lemma writeKeys_foldl:
  "writeKeys v ks buf = foldl sep_append buf (map encodePair (pairs_of v ks))"
  by (induction ks arbitrary: buf)
     (simp_all add: pairs_of_def writeValues_foldl encodePair_def comp_def)

lemma pairs_of_filter:
  "distinct ks \<Longrightarrow>
     map snd (filter (\<lambda>p. fst p = key) (pairs_of v ks))
       = (if key \<in> set ks then index v key else [])"
proof (induction ks)
  case Nil
  show ?case by (simp add: pairs_of_def)
next
  case (Cons k ks)
  have here: "map snd (filter (\<lambda>p. fst p = key) (map (Pair k) (index v k)))
                = (if k = key then index v k else [])"
    by (simp add: filter_map comp_def)
  have "pairs_of v (k # ks) = map (Pair k) (index v k) @ pairs_of v ks"
    by (simp add: pairs_of_def)
  then show ?case using Cons here by auto
qed

lemma parseQuery_writeKeys:
  "index (parseQuery m (writeKeys v ks [])) key
     = index m key @ map snd (filter (\<lambda>p. fst p = key) (pairs_of v ks))"
proof -
  have "parseQuery m (writeKeys v ks [])
          = foldl parseSegment (parseQuery m []) (map encodePair (pairs_of v ks))"
    unfolding writeKeys_foldl
    by (rule parseQuery_foldl) (auto simp: encodePair_no_amp)
  then show ?thesis
    by (simp add: parseQuery_Nil foldl_parseSegment_pairs index_foldl_Add)
qed

lemma ParseQuery_Encode_index:
  "distinct (map fst v) \<Longrightarrow> index (ParseQuery (Encode v)) key = index v key"
proof (cases "v = []")
  case True
  then show ?thesis by (simp add: ParseQuery_def Encode_def parseQuery_Nil)
next
  case False
  assume d: "distinct (map fst v)"
  have ds: "distinct (sort (map fst v))" using d by simp
  have "index (ParseQuery (Encode v)) key
          = (if key \<in> set (sort (map fst v)) then index v key else [])"
    using False by (simp add: ParseQuery_def Encode_def parseQuery_writeKeys pairs_of_filter [OF ds])
  then show ?thesis using index_notin [of key v] by auto
qed

subsection \<open>Well-formed parameter maps\<close>

lemma wf_values_parseSegment: "wf_values m \<Longrightarrow> wf_values (parseSegment m s)"
  by (simp add: parseSegment_def wf_values_Add split: option.splits)

lemma wf_values_parseQuery: "wf_values m \<Longrightarrow> wf_values (parseQuery m q)"
proof (induction q arbitrary: m rule: length_induct)
  case (1 q)
  show ?case
  proof (cases "q = []")
    case True
    then show ?thesis using "1.prems" by (simp add: parseQuery_Nil)
  next
    case False
    have "wf_values (parseQuery (parseSegment m (fst (Cut q (CHR ''&'')))) (snd (Cut q (CHR ''&''))))"
      using 1 Cut_shorter [OF False] wf_values_parseSegment by blast
    then show ?thesis using False by (simp add: parseQuery_step)
  qed
qed

lemma wf_values_Nil: "wf_values []"
  by (simp add: wf_values_def)

lemma wf_values_ParseQuery: "wf_values (ParseQuery s)"
  unfolding ParseQuery_def by (rule wf_values_parseQuery [OF wf_values_Nil])

lemma wf_values_Query: "wf_values (Query req)"
  by (simp add: Query_def wf_values_ParseQuery)

lemma Encode_cong:
  assumes v: "wf_values v" and w: "wf_values w" and same: "\<And>k. index v k = index w k"
  shows "Encode v = Encode w"
proof -
  have keys: "set (map fst v) = set (map fst w)"
    using keys_by_index [OF v] keys_by_index [OF w] same by simp
  have "sort (map fst v) = sort (map fst w)"
  proof (rule sorted_distinct_set_unique)
    show "distinct (sort (map fst v))" using v by (simp add: wf_values_def)
    show "distinct (sort (map fst w))" using w by (simp add: wf_values_def)
    show "set (sort (map fst v)) = set (sort (map fst w))" using keys by simp
  qed simp_all
  moreover have "pairs_of v ks = pairs_of w ks" for ks
    by (simp add: pairs_of_def same)
  moreover have "(v = []) = (w = [])" using keys by auto
  ultimately show ?thesis by (simp add: Encode_def writeKeys_foldl)
qed

lemma Encode_ParseQuery_Encode:
  assumes v: "wf_values v"
  shows "Encode (ParseQuery (Encode v)) = Encode v"
proof (rule Encode_cong)
  show "wf_values (ParseQuery (Encode v))"
    by (rule wf_values_ParseQuery)
  show "wf_values v" by (rule v)
  show "index (ParseQuery (Encode v)) k = index v k" for k
    using v by (simp add: ParseQuery_Encode_index wf_values_def)
qed

lemma ParseQuery_Encode_empty:
  assumes v: "wf_values v"
  shows "(ParseQuery (Encode v) = []) = (v = [])"
proof -
  have w: "wf_values (ParseQuery (Encode v))"
    by (rule wf_values_ParseQuery)
  have "fst ` set (ParseQuery (Encode v)) = fst ` set v"
    using keys_by_index [OF w] keys_by_index [OF v] v
    by (simp add: ParseQuery_Encode_index wf_values_def)
  then show ?thesis by auto
qed

section \<open>Properties of addQuery\<close>

lemma TweetSearchOpts_addQuery_same:
  "TweetSearchOpts_addQuery x t req = TweetRecentSearchOpts_addQuery x t req"
  unfolding TweetSearchOpts_addQuery_def TweetRecentSearchOpts_addQuery_def
  by (rule refl)

lemma index_addIf:
  "index (addIf b k v q) key = index q key @ (if b \<and> key = k then [v] else [])"
  by (simp add: addIf_def index_Add)

lemma wf_values_addIf: "wf_values q \<Longrightarrow> wf_values (addIf b k v q)"
  by (simp add: addIf_def wf_values_Add)

lemma Add_not_Nil: "Add q k v \<noteq> []"
  by (cases q) (auto split: if_splits)

lemma addIf_Nil: "(addIf b k v q = []) = (\<not> b \<and> q = [])"
  by (simp add: addIf_def Add_not_Nil)

lemma recent_addQuery_alt:
  "TweetRecentSearchOpts_addQuery x t req =
     (if length (recent_adds x t (Query req)) > 0
      then req\<lparr>RawQuery := Encode (recent_adds x t (Query req))\<rparr> else req)"
  unfolding TweetRecentSearchOpts_addQuery_def recent_adds_def addIf_def Let_def
  by (rule refl)

lemma user_addQuery_alt:
  "UserLookupOpts_addQuery x u req =
     (if length (user_adds x u (Query req)) > 0
      then req\<lparr>RawQuery := Encode (user_adds x u (Query req))\<rparr> else req)"
  unfolding UserLookupOpts_addQuery_def user_adds_def addIf_def Let_def
  by (rule refl)

lemma wf_values_recent_adds: "wf_values q \<Longrightarrow> wf_values (recent_adds x t q)"
  unfolding recent_adds_def by (intro wf_values_addIf)

lemma wf_values_user_adds: "wf_values q \<Longrightarrow> wf_values (user_adds x u q)"
  unfolding user_adds_def by (intro wf_values_addIf)

lemma index_recent_adds:
  "index (recent_adds x t q) key = index q key @ recent_emitted x t key"
  unfolding recent_emitted_def recent_adds_def
  by (simp only: index_addIf index.simps append_Nil append_assoc)

lemma index_user_adds:
  "index (user_adds x u q) key = index q key @ user_emitted x u key"
  unfolding user_emitted_def user_adds_def
  by (simp only: index_addIf index.simps append_Nil append_assoc)

lemma recent_adds_Nil: "recent_adds x t q = [] \<Longrightarrow> q = []"
  unfolding recent_adds_def by (simp only: addIf_Nil)

lemma user_adds_Nil: "user_adds x u q = [] \<Longrightarrow> q = []"
  unfolding user_adds_def by (simp only: addIf_Nil)

lemma commit_index:
  assumes wf: "wf_values q" and nil: "q = [] \<Longrightarrow> Query req = []"
  shows "index (Query (if length q > 0 then req\<lparr>RawQuery := Encode q\<rparr> else req)) key
           = index q key"
proof (cases "q = []")
  case True
  then show ?thesis using nil by simp
next
  case False
  then show ?thesis
    using wf by (simp add: Query_def ParseQuery_Encode_index wf_values_def)
qed

lemma recent_addQuery_index:
  "index (Query (TweetRecentSearchOpts_addQuery x t req)) key
     = index (Query req) key @ recent_emitted x t key"
  unfolding recent_addQuery_alt
  using commit_index [of "recent_adds x t (Query req)" req key]
    wf_values_recent_adds [OF wf_values_Query, of x t req]
    recent_adds_Nil [of x t "Query req"]
  by (simp only: index_recent_adds)

lemma user_addQuery_index:
  "index (Query (UserLookupOpts_addQuery x u req)) key
     = index (Query req) key @ user_emitted x u key"
  unfolding user_addQuery_alt
  using commit_index [of "user_adds x u (Query req)" req key]
    wf_values_user_adds [OF wf_values_Query, of x u req]
    user_adds_Nil [of x u "Query req"]
  by (simp only: index_user_adds)

lemma recent_emitted_length:
  "length (recent_emitted x t key) = (if nonZeroField t key then 1 else 0)"
proof -
  consider "key = ''expansions''" | "key = ''media.fields''" | "key = ''place.fields''"
    | "key = ''poll.fields''" | "key = ''tweet.fields''" | "key = ''user.fields''"
    | "key = ''start_time''" | "key = ''end_time''" | "key = ''max_results''"
    | "key = ''next_token''" | "key = ''since_id''" | "key = ''until_id''"
    | "key = ''sort_order''"
    | "key \<noteq> ''expansions'' \<and> key \<noteq> ''media.fields'' \<and> key \<noteq> ''place.fields''
       \<and> key \<noteq> ''poll.fields'' \<and> key \<noteq> ''tweet.fields'' \<and> key \<noteq> ''user.fields''
       \<and> key \<noteq> ''start_time'' \<and> key \<noteq> ''end_time'' \<and> key \<noteq> ''max_results''
       \<and> key \<noteq> ''next_token'' \<and> key \<noteq> ''since_id'' \<and> key \<noteq> ''until_id''
       \<and> key \<noteq> ''sort_order''"
    by blast
  then show ?thesis
    by cases (simp_all add: recent_emitted_def recent_adds_def index_addIf nonZeroField_def)
qed

lemma user_emitted_length:
  "length (user_emitted x u key) = (if userNonZeroField u key then 1 else 0)"
proof -
  consider "key = ''expansions''" | "key = ''tweet.fields''" | "key = ''user.fields''"
    | "key \<noteq> ''expansions'' \<and> key \<noteq> ''tweet.fields'' \<and> key \<noteq> ''user.fields''"
    by blast
  then show ?thesis
    by cases (simp_all add: user_emitted_def user_adds_def index_addIf userNonZeroField_def)
qed

lemma allZero_iff_none: "allZero t = (\<forall>key. \<not> nonZeroField t key)"
proof
  assume "allZero t"
  then show "\<forall>key. \<not> nonZeroField t key"
    by (simp add: allZero_def nonZeroField_def)
next
  assume none: "\<forall>key. \<not> nonZeroField t key"
  have "\<not> nonZeroField t ''expansions''" "\<not> nonZeroField t ''media.fields''"
    "\<not> nonZeroField t ''place.fields''" "\<not> nonZeroField t ''poll.fields''"
    "\<not> nonZeroField t ''tweet.fields''" "\<not> nonZeroField t ''user.fields''"
    "\<not> nonZeroField t ''start_time''" "\<not> nonZeroField t ''end_time''"
    "\<not> nonZeroField t ''max_results''" "\<not> nonZeroField t ''next_token''"
    "\<not> nonZeroField t ''since_id''" "\<not> nonZeroField t ''until_id''"
    "\<not> nonZeroField t ''sort_order''"
    using none by blast+
  then show "allZero t"
    by (simp add: allZero_def nonZeroField_def)
qed

lemma userAllZero_iff_none: "userAllZero u = (\<forall>key. \<not> userNonZeroField u key)"
proof
  assume "userAllZero u"
  then show "\<forall>key. \<not> userNonZeroField u key"
    by (simp add: userAllZero_def userNonZeroField_def)
next
  assume none: "\<forall>key. \<not> userNonZeroField u key"
  have "\<not> userNonZeroField u ''expansions''" "\<not> userNonZeroField u ''tweet.fields''"
    "\<not> userNonZeroField u ''user.fields''"
    using none by blast+
  then show "userAllZero u"
    by (simp add: userAllZero_def userNonZeroField_def)
qed

lemma allZero_recent_adds: "allZero t \<Longrightarrow> recent_adds x t q = q"
  by (simp add: allZero_def recent_adds_def addIf_def)

lemma userAllZero_user_adds: "userAllZero u \<Longrightarrow> user_adds x u q = q"
  by (simp add: userAllZero_def user_adds_def addIf_def)

lemma allZero_RawQuery:
  "allZero t \<Longrightarrow>
     RawQuery (TweetRecentSearchOpts_addQuery x t req)
       = (if Query req = [] then RawQuery req else Encode (Query req))"
  by (simp add: recent_addQuery_alt allZero_recent_adds)

lemma userAllZero_RawQuery:
  "userAllZero u \<Longrightarrow>
     RawQuery (UserLookupOpts_addQuery x u req)
       = (if Query req = [] then RawQuery req else Encode (Query req))"
  by (simp add: user_addQuery_alt userAllZero_user_adds)

lemma canonical_twice:
  assumes step: "\<And>r. RawQuery (f r) = (if Query r = [] then RawQuery r else Encode (Query r))"
  shows "RawQuery (f (f req)) = RawQuery (f req)"
proof (cases "Query req = []")
  case True
  then have "RawQuery (f req) = RawQuery req" by (simp add: step)
  then have "Query (f req) = []" using True by (simp add: Query_def)
  then show ?thesis by (simp add: step)
next
  case False
  then have raw: "RawQuery (f req) = Encode (Query req)" by (simp add: step)
  have ne: "Query (f req) \<noteq> []"
    using False ParseQuery_Encode_empty [OF wf_values_Query, of req] raw
    by (simp add: Query_def)
  have "RawQuery (f (f req)) = Encode (Query (f req))" using ne by (simp add: step)
  also have "\<dots> = Encode (Query req)"
    using Encode_ParseQuery_Encode [OF wf_values_Query, of req] raw
    by (simp add: Query_def)
  finally show ?thesis using raw by simp
qed

lemma recent_twice_iff:
  "(RawQuery (TweetRecentSearchOpts_addQuery x t (TweetRecentSearchOpts_addQuery x t req))
      = RawQuery (TweetRecentSearchOpts_addQuery x t req)) = allZero t"
proof
  assume "allZero t"
  then show "RawQuery (TweetRecentSearchOpts_addQuery x t (TweetRecentSearchOpts_addQuery x t req))
      = RawQuery (TweetRecentSearchOpts_addQuery x t req)"
    by (intro canonical_twice allZero_RawQuery)
next
  assume same: "RawQuery (TweetRecentSearchOpts_addQuery x t (TweetRecentSearchOpts_addQuery x t req))
      = RawQuery (TweetRecentSearchOpts_addQuery x t req)"
  show "allZero t"
  proof (rule ccontr)
    assume "\<not> allZero t"
    then obtain key where "nonZeroField t key" by (auto simp: allZero_iff_none)
    then have one: "length (recent_emitted x t key) = 1"
      by (simp add: recent_emitted_length)
    have "index (Query (TweetRecentSearchOpts_addQuery x t (TweetRecentSearchOpts_addQuery x t req))) key
            = index (Query (TweetRecentSearchOpts_addQuery x t req)) key"
      using same by (simp add: Query_def)
    then have "length (recent_emitted x t key) = 0"
      by (simp add: recent_addQuery_index)
    then show False using one by simp
  qed
qed

lemma user_twice_iff:
  "(RawQuery (UserLookupOpts_addQuery x u (UserLookupOpts_addQuery x u req))
      = RawQuery (UserLookupOpts_addQuery x u req)) = userAllZero u"
proof
  assume "userAllZero u"
  then show "RawQuery (UserLookupOpts_addQuery x u (UserLookupOpts_addQuery x u req))
      = RawQuery (UserLookupOpts_addQuery x u req)"
    by (intro canonical_twice userAllZero_RawQuery)
next
  assume same: "RawQuery (UserLookupOpts_addQuery x u (UserLookupOpts_addQuery x u req))
      = RawQuery (UserLookupOpts_addQuery x u req)"
  show "userAllZero u"
  proof (rule ccontr)
    assume "\<not> userAllZero u"
    then obtain key where "userNonZeroField u key" by (auto simp: userAllZero_iff_none)
    then have one: "length (user_emitted x u key) = 1"
      by (simp add: user_emitted_length)
    have "index (Query (UserLookupOpts_addQuery x u (UserLookupOpts_addQuery x u req))) key
            = index (Query (UserLookupOpts_addQuery x u req)) key"
      using same by (simp add: Query_def)
    then have "length (user_emitted x u key) = 0"
      by (simp add: user_addQuery_index)
    then show False using one by simp
  qed
qed

lemma Query_fresh: "Query (req\<lparr>RawQuery := []\<rparr>) = []"
  by (simp add: Query_def ParseQuery_def parseQuery_Nil)

lemma occurrences_Query: "occurrences key (RawQuery req) = length (index (Query req) key)"
  by (simp add: occurrences_def Query_def)

lemma recent_emitted_lists:
  "recent_emitted x t ''expansions''
     = (if TweetRecentSearchOpts.Expansions t \<noteq> []
        then [Join (map (expansionString x) (TweetRecentSearchOpts.Expansions t)) '',''] else [])"
  "recent_emitted x t ''media.fields''
     = (if MediaFields t \<noteq> []
        then [Join (map (mediaFieldString x) (MediaFields t)) '',''] else [])"
  "recent_emitted x t ''place.fields''
     = (if PlaceFields t \<noteq> []
        then [Join (map (placeFieldString x) (PlaceFields t)) '',''] else [])"
  "recent_emitted x t ''poll.fields''
     = (if PollFields t \<noteq> []
        then [Join (map (pollFieldString x) (PollFields t)) '',''] else [])"
  "recent_emitted x t ''tweet.fields''
     = (if TweetRecentSearchOpts.TweetFields t \<noteq> []
        then [Join (map (tweetFieldString x) (TweetRecentSearchOpts.TweetFields t)) '',''] else [])"
  "recent_emitted x t ''user.fields''
     = (if TweetRecentSearchOpts.UserFields t \<noteq> []
        then [Join (map (userFieldString x) (TweetRecentSearchOpts.UserFields t)) '',''] else [])"
  by (simp_all add: recent_emitted_def recent_adds_def index_addIf expansionStringArray_def
        mediaFieldStringArray_def placeFieldStringArray_def pollFieldStringArray_def
        tweetFieldStringArray_def userFieldStringArray_def)

lemma recent_emitted_sort_order:
  "recent_emitted x t ''sort_order'' = (if SortOrder t \<noteq> [] then [SortOrder t] else [])"
  by (simp add: recent_emitted_def recent_adds_def index_addIf)

lemma user_emitted_lists:
  "user_emitted x u ''expansions''
     = (if UserLookupOpts.Expansions u \<noteq> []
        then [Join (map (expansionString x) (UserLookupOpts.Expansions u)) '',''] else [])"
  "user_emitted x u ''tweet.fields''
     = (if UserLookupOpts.TweetFields u \<noteq> []
        then [Join (map (tweetFieldString x) (UserLookupOpts.TweetFields u)) '',''] else [])"
  "user_emitted x u ''user.fields''
     = (if UserLookupOpts.UserFields u \<noteq> []
        then [Join (map (userFieldString x) (UserLookupOpts.UserFields u)) '',''] else [])"
  by (simp_all add: user_emitted_def user_adds_def index_addIf expansionStringArray_def
        tweetFieldStringArray_def userFieldStringArray_def)

section \<open>Properties of rule validation and of the decoder\<close>

lemma rules_validate_all_valid:
  "(\<And>r. r \<in> set t \<Longrightarrow> TweetSearchStreamRule_validate r = None)
   \<Longrightarrow> tweetSearchStreamRules_validate t = None"
  by (induction t) simp_all

lemma rules_validate_first_invalid:
  "(\<And>r. r \<in> set pre \<Longrightarrow> TweetSearchStreamRule_validate r = None)
   \<Longrightarrow> TweetSearchStreamRule_validate bad = Some e
   \<Longrightarrow> tweetSearchStreamRules_validate (pre @ bad # post) = Some e"
  by (induction pre) simp_all

lemma ids_validate_all_valid:
  "(\<And>r. r \<in> set t \<Longrightarrow> TweetSearchStreamRuleID_validate r = None)
   \<Longrightarrow> tweetSearchStreamRuleIDs_validate t = None"
  by (induction t) simp_all

lemma ids_validate_first_invalid:
  "(\<And>r. r \<in> set pre \<Longrightarrow> TweetSearchStreamRuleID_validate r = None)
   \<Longrightarrow> TweetSearchStreamRuleID_validate bad = Some e
   \<Longrightarrow> tweetSearchStreamRuleIDs_validate (pre @ bad # post) = Some e"
  by (induction pre) simp_all

lemma toStringArray_loop_eq:
  "length ids = i + length t
   \<Longrightarrow> toStringArray_loop i t ids = take i ids @ map string_of_id t"
proof (induction t arbitrary: i ids)
  case Nil
  then show ?case by simp
next
  case (Cons x t)
  have "toStringArray_loop (Suc i) t (ids[i := string_of_id x])
        = take (Suc i) (ids[i := string_of_id x]) @ map string_of_id t"
    using Cons.prems by (intro Cons.IH) simp
  moreover have "take (Suc i) (ids[i := string_of_id x]) = take i ids @ [string_of_id x]"
    using Cons.prems by (simp add: take_Suc_conv_app_nth)
  ultimately show ?case by simp
qed

lemma toStringArray_map:
  "tweetSearchStreamRuleIDs_toStringArray t = map string_of_id t"
  by (simp add: tweetSearchStreamRuleIDs_toStringArray_def toStringArray_loop_eq)

lemma sampleDecoding_simps:
  "rateFromHeader sampleDecoding ''hdr'' = 3"
  "dailyAppRateFromHeader sampleDecoding ''hdr'' = 4"
  "dailyUserRateFromHeader sampleDecoding ''hdr'' = 5"
  "unmarshalErrorResponse sampleDecoding ''{}''
     = Inr \<lparr>Envelope = ''envelope'', ErrorResponse.StatusCode = 0,
             ErrorResponse.RateLimit = 0, ErrorResponse.DailyAppRateLimit = 0,
             ErrorResponse.DailyUserRateLimit = 0\<rparr>"
  "unmarshalErrorResponse sampleDecoding ''not json'' = Inl ''invalid character''"
  "unmarshalTweetRaw sampleDecoding ''<'' = Inl ''invalid character''"
  "unmarshalTweetRaw sampleDecoding ''[]'' = Inr ''raw''"
  "unmarshalResponse sampleDecoding ''[]'' r = Inl ''cannot unmarshal array''"
  by (simp_all add: sampleDecoding_def)

section \<open>The claims\<close>

text \<open>
  Claim C1. For every options value, each optional field is emitted iff it is non-zero
  for its type, and when emitted it appears exactly once under its documented key: for
  every key, \<open>addQuery\<close> raises the number of parameters of that name in the request's
  query string by one when the key is the documented key of a non-zero field, and by
  nothing otherwise; on a request without a query string the key thus appears exactly
  once or not at all. The same holds for the three fields of the user lookup options.
\<close>

theorem addQuery_emits_nonzero_fields_once:
  "occurrences key (RawQuery (TweetRecentSearchOpts_addQuery x t req))
     = occurrences key (RawQuery req) + (if nonZeroField t key then 1 else 0)
   \<and> occurrences key (RawQuery (TweetRecentSearchOpts_addQuery x t (req\<lparr>RawQuery := []\<rparr>)))
     = (if nonZeroField t key then 1 else 0)
   \<and> occurrences key (RawQuery (UserLookupOpts_addQuery x u req))
     = occurrences key (RawQuery req) + (if userNonZeroField u key then 1 else 0)
   \<and> occurrences key (RawQuery (UserLookupOpts_addQuery x u (req\<lparr>RawQuery := []\<rparr>)))
     = (if userNonZeroField u key then 1 else 0)"
  by (simp add: occurrences_Query recent_addQuery_index user_addQuery_index
        recent_emitted_length user_emitted_length Query_fresh)

theorem addQuery_emits_nonzero_fields_once_witness:
  "RawQuery (TweetRecentSearchOpts_addQuery plainLookups
       (zeroOpts\<lparr>MaxResults := 50, SinceID := ''100''\<rparr>) \<lparr>RawQuery = []\<rparr>)
     = ''max_results=50&since_id=100''
   \<and> occurrences ''max_results'' ''max_results=50&since_id=100'' = 1
   \<and> occurrences ''max_results'' (RawQuery (TweetRecentSearchOpts_addQuery plainLookups
       (zeroOpts\<lparr>MaxResults := 50, SinceID := ''100''\<rparr>) \<lparr>RawQuery = ''max_results=7''\<rparr>)) = 2"
proof -
  have raw: "RawQuery (TweetRecentSearchOpts_addQuery plainLookups
       (zeroOpts\<lparr>MaxResults := 50, SinceID := ''100''\<rparr>) \<lparr>RawQuery = []\<rparr>)
     = ''max_results=50&since_id=100''"
    by code_simp
  have old: "occurrences ''max_results'' ''max_results=7'' = 1"
    by code_simp
  show ?thesis
    using raw old
      addQuery_emits_nonzero_fields_once [of "''max_results''" plainLookups
        "zeroOpts\<lparr>MaxResults := 50, SinceID := ''100''\<rparr>" "\<lparr>RawQuery = ''max_results=7''\<rparr>"]
    by (simp add: nonZeroField_def zeroOpts_def)
qed

text \<open>
  Claim C2 as stated fails: \<open>addQuery\<close> appends with \<open>q.Add\<close>, so on a request
  that already went through it a set field is written a second time.
\<close>

theorem addQuery_twice_counterexample:
  "RawQuery (TweetRecentSearchOpts_addQuery plainLookups (zeroOpts\<lparr>SinceID := ''100''\<rparr>)
       \<lparr>RawQuery = []\<rparr>) = ''since_id=100''
   \<and> RawQuery (TweetRecentSearchOpts_addQuery plainLookups (zeroOpts\<lparr>SinceID := ''100''\<rparr>)
        (TweetRecentSearchOpts_addQuery plainLookups (zeroOpts\<lparr>SinceID := ''100''\<rparr>)
           \<lparr>RawQuery = []\<rparr>)) = ''since_id=100&since_id=100''
   \<and> RawQuery (TweetRecentSearchOpts_addQuery plainLookups (zeroOpts\<lparr>SinceID := ''100''\<rparr>)
        (TweetRecentSearchOpts_addQuery plainLookups (zeroOpts\<lparr>SinceID := ''100''\<rparr>)
           \<lparr>RawQuery = []\<rparr>))
     \<noteq> RawQuery (TweetRecentSearchOpts_addQuery plainLookups (zeroOpts\<lparr>SinceID := ''100''\<rparr>)
       \<lparr>RawQuery = []\<rparr>)"
  by code_simp

text \<open>
  Claim C2, amended. For every request, applying the query encoding twice produces the
  same query string as applying it once exactly when every field of the options is
  zero-valued; with any field set, the second application adds that field's parameter
  again.
\<close>

theorem addQuery_twice_same_iff_all_zero:
  "((RawQuery (TweetRecentSearchOpts_addQuery x t (TweetRecentSearchOpts_addQuery x t req))
      = RawQuery (TweetRecentSearchOpts_addQuery x t req)) = allZero t)
   \<and> ((RawQuery (UserLookupOpts_addQuery x u (UserLookupOpts_addQuery x u req))
      = RawQuery (UserLookupOpts_addQuery x u req)) = userAllZero u)"
  by (simp only: recent_twice_iff user_twice_iff)

text \<open>
  Claim C3. For every non-empty collection-valued field (expansions and the five
  field-selector lists, and the three lists of the user lookup options), the value
  \<open>addQuery\<close> puts under the field's key, after the values the request already had
  there, is the string forms of the elements joined with a comma in the order supplied.
\<close>

theorem collection_fields_joined_in_order:
  "(TweetRecentSearchOpts.Expansions t \<noteq> [] \<longrightarrow>
      index (Query (TweetRecentSearchOpts_addQuery x t req)) ''expansions''
        = index (Query req) ''expansions''
          @ [Join (map (expansionString x) (TweetRecentSearchOpts.Expansions t)) '',''])
   \<and> (MediaFields t \<noteq> [] \<longrightarrow>
      index (Query (TweetRecentSearchOpts_addQuery x t req)) ''media.fields''
        = index (Query req) ''media.fields''
          @ [Join (map (mediaFieldString x) (MediaFields t)) '',''])
   \<and> (PlaceFields t \<noteq> [] \<longrightarrow>
      index (Query (TweetRecentSearchOpts_addQuery x t req)) ''place.fields''
        = index (Query req) ''place.fields''
          @ [Join (map (placeFieldString x) (PlaceFields t)) '',''])
   \<and> (PollFields t \<noteq> [] \<longrightarrow>
      index (Query (TweetRecentSearchOpts_addQuery x t req)) ''poll.fields''
        = index (Query req) ''poll.fields''
          @ [Join (map (pollFieldString x) (PollFields t)) '',''])
   \<and> (TweetRecentSearchOpts.TweetFields t \<noteq> [] \<longrightarrow>
      index (Query (TweetRecentSearchOpts_addQuery x t req)) ''tweet.fields''
        = index (Query req) ''tweet.fields''
          @ [Join (map (tweetFieldString x) (TweetRecentSearchOpts.TweetFields t)) '',''])
   \<and> (TweetRecentSearchOpts.UserFields t \<noteq> [] \<longrightarrow>
      index (Query (TweetRecentSearchOpts_addQuery x t req)) ''user.fields''
        = index (Query req) ''user.fields''
          @ [Join (map (userFieldString x) (TweetRecentSearchOpts.UserFields t)) '',''])
   \<and> (UserLookupOpts.Expansions u \<noteq> [] \<longrightarrow>
      index (Query (UserLookupOpts_addQuery x u req)) ''expansions''
        = index (Query req) ''expansions''
          @ [Join (map (expansionString x) (UserLookupOpts.Expansions u)) '',''])
   \<and> (UserLookupOpts.TweetFields u \<noteq> [] \<longrightarrow>
      index (Query (UserLookupOpts_addQuery x u req)) ''tweet.fields''
        = index (Query req) ''tweet.fields''
          @ [Join (map (tweetFieldString x) (UserLookupOpts.TweetFields u)) '',''])
   \<and> (UserLookupOpts.UserFields u \<noteq> [] \<longrightarrow>
      index (Query (UserLookupOpts_addQuery x u req)) ''user.fields''
        = index (Query req) ''user.fields''
          @ [Join (map (userFieldString x) (UserLookupOpts.UserFields u)) '',''])"
  by (simp add: recent_addQuery_index user_addQuery_index recent_emitted_lists
        user_emitted_lists)

theorem collection_fields_joined_in_order_witness:
  "(RawQuery (TweetRecentSearchOpts_addQuery plainLookups sampleOpts \<lparr>RawQuery = ''query=cat''\<rparr>)
     = ''expansions=geo.place_id%2Cauthor_id&media.fields=url%2Cheight&place.fields=name''
       @ ''&poll.fields=options%2Cid&query=cat&tweet.fields=text%2Ccreated_at%2Cid''
       @ ''&user.fields=username%2Cname'')
   \<and> (TweetRecentSearchOpts.Expansions sampleOpts \<noteq> [] \<and> MediaFields sampleOpts \<noteq> []
   \<and> PlaceFields sampleOpts \<noteq> [] \<and> PollFields sampleOpts \<noteq> []
   \<and> TweetRecentSearchOpts.TweetFields sampleOpts \<noteq> []
   \<and> TweetRecentSearchOpts.UserFields sampleOpts \<noteq> []
   \<and> UserLookupOpts.Expansions sampleUserOpts \<noteq> []
   \<and> UserLookupOpts.TweetFields sampleUserOpts \<noteq> []
   \<and> UserLookupOpts.UserFields sampleUserOpts \<noteq> []
   \<and> index (Query (TweetRecentSearchOpts_addQuery plainLookups sampleOpts \<lparr>RawQuery = []\<rparr>))
        ''expansions'' = [''geo.place_id,author_id'']
   \<and> index (Query (TweetRecentSearchOpts_addQuery plainLookups sampleOpts \<lparr>RawQuery = []\<rparr>))
        ''media.fields'' = [''url,height'']
   \<and> index (Query (TweetRecentSearchOpts_addQuery plainLookups sampleOpts \<lparr>RawQuery = []\<rparr>))
        ''place.fields'' = [''name'']
   \<and> index (Query (TweetRecentSearchOpts_addQuery plainLookups sampleOpts \<lparr>RawQuery = []\<rparr>))
        ''poll.fields'' = [''options,id'']
   \<and> index (Query (TweetRecentSearchOpts_addQuery plainLookups sampleOpts \<lparr>RawQuery = []\<rparr>))
        ''tweet.fields'' = [''text,created_at,id'']
   \<and> index (Query (TweetRecentSearchOpts_addQuery plainLookups sampleOpts \<lparr>RawQuery = []\<rparr>))
        ''user.fields'' = [''username,name'']
   \<and> index (Query (UserLookupOpts_addQuery plainLookups sampleUserOpts \<lparr>RawQuery = []\<rparr>))
        ''expansions'' = [''pinned_tweet_id'']
   \<and> index (Query (UserLookupOpts_addQuery plainLookups sampleUserOpts \<lparr>RawQuery = []\<rparr>))
        ''tweet.fields'' = [''text,id'']
   \<and> index (Query (UserLookupOpts_addQuery plainLookups sampleUserOpts \<lparr>RawQuery = []\<rparr>))
        ''user.fields'' = [''username,id,name''])"
proof -
  have wire: "RawQuery (TweetRecentSearchOpts_addQuery plainLookups sampleOpts \<lparr>RawQuery = ''query=cat''\<rparr>)
     = ''expansions=geo.place_id%2Cauthor_id&media.fields=url%2Cheight&place.fields=name''
       @ ''&poll.fields=options%2Cid&query=cat&tweet.fields=text%2Ccreated_at%2Cid''
       @ ''&user.fields=username%2Cname''"
    by code_simp
  have sem: "TweetRecentSearchOpts.Expansions sampleOpts \<noteq> [] \<and> MediaFields sampleOpts \<noteq> []
   \<and> PlaceFields sampleOpts \<noteq> [] \<and> PollFields sampleOpts \<noteq> []
   \<and> TweetRecentSearchOpts.TweetFields sampleOpts \<noteq> []
   \<and> TweetRecentSearchOpts.UserFields sampleOpts \<noteq> []
   \<and> UserLookupOpts.Expansions sampleUserOpts \<noteq> []
   \<and> UserLookupOpts.TweetFields sampleUserOpts \<noteq> []
   \<and> UserLookupOpts.UserFields sampleUserOpts \<noteq> []
   \<and> index (Query (TweetRecentSearchOpts_addQuery plainLookups sampleOpts \<lparr>RawQuery = []\<rparr>))
        ''expansions'' = [''geo.place_id,author_id'']
   \<and> index (Query (TweetRecentSearchOpts_addQuery plainLookups sampleOpts \<lparr>RawQuery = []\<rparr>))
        ''media.fields'' = [''url,height'']
   \<and> index (Query (TweetRecentSearchOpts_addQuery plainLookups sampleOpts \<lparr>RawQuery = []\<rparr>))
        ''place.fields'' = [''name'']
   \<and> index (Query (TweetRecentSearchOpts_addQuery plainLookups sampleOpts \<lparr>RawQuery = []\<rparr>))
        ''poll.fields'' = [''options,id'']
   \<and> index (Query (TweetRecentSearchOpts_addQuery plainLookups sampleOpts \<lparr>RawQuery = []\<rparr>))
        ''tweet.fields'' = [''text,created_at,id'']
   \<and> index (Query (TweetRecentSearchOpts_addQuery plainLookups sampleOpts \<lparr>RawQuery = []\<rparr>))
        ''user.fields'' = [''username,name'']
   \<and> index (Query (UserLookupOpts_addQuery plainLookups sampleUserOpts \<lparr>RawQuery = []\<rparr>))
        ''expansions'' = [''pinned_tweet_id'']
   \<and> index (Query (UserLookupOpts_addQuery plainLookups sampleUserOpts \<lparr>RawQuery = []\<rparr>))
        ''tweet.fields'' = [''text,id'']
   \<and> index (Query (UserLookupOpts_addQuery plainLookups sampleUserOpts \<lparr>RawQuery = []\<rparr>))
        ''user.fields'' = [''username,id,name'']"
    using collection_fields_joined_in_order
      [of sampleOpts plainLookups "\<lparr>RawQuery = []\<rparr>" sampleUserOpts]
    by (simp add: sampleOpts_def sampleUserOpts_def zeroOpts_def plainLookups_def Query_def
          ParseQuery_def parseQuery_Nil)
  show ?thesis using wire sem by (rule conjI)
qed

text \<open>
  Claim C8. Every non-empty sort order is emitted as it is under \<open>sort_order\<close>, whether
  or not it is one of the two named orders: the parameter's value is the field itself,
  and on a request without a query string the query string is \<open>sort_order=\<close> followed
  by the escaped field.
\<close>

theorem sort_order_passed_verbatim:
  "(SortOrder t \<noteq> [] \<longrightarrow>
      index (Query (TweetRecentSearchOpts_addQuery x t req)) ''sort_order''
        = index (Query req) ''sort_order'' @ [SortOrder t])
   \<and> (s \<noteq> [] \<longrightarrow>
      RawQuery (TweetRecentSearchOpts_addQuery x (zeroOpts\<lparr>SortOrder := s\<rparr>) \<lparr>RawQuery = []\<rparr>)
        = ''sort_order='' @ QueryEscape s)"
proof -
  have adds: "s \<noteq> [] \<Longrightarrow>
      recent_adds x (zeroOpts\<lparr>SortOrder := s\<rparr>) (Query \<lparr>RawQuery = []\<rparr>) = [(''sort_order'', [s])]"
    by (simp add: recent_adds_def addIf_def zeroOpts_def zeroTime_def IsZero_def Query_def
          ParseQuery_def parseQuery_Nil)
  have enc: "Encode [(''sort_order'', [s])] = ''sort_order='' @ QueryEscape s"
    by (simp add: Encode_def shouldEscape_def)
  have wire: "s \<noteq> [] \<Longrightarrow>
      RawQuery (TweetRecentSearchOpts_addQuery x (zeroOpts\<lparr>SortOrder := s\<rparr>) \<lparr>RawQuery = []\<rparr>)
        = ''sort_order='' @ QueryEscape s"
    using adds enc by (simp add: recent_addQuery_alt)
  have param: "index (Query (TweetRecentSearchOpts_addQuery x t req)) ''sort_order''
        = index (Query req) ''sort_order'' @ (if SortOrder t \<noteq> [] then [SortOrder t] else [])"
    by (simp only: recent_addQuery_index recent_emitted_sort_order)
  show ?thesis using wire param by simp
qed

theorem sort_order_passed_verbatim_witness:
  "''newest first'' \<noteq> TweetSearchSortOrderRecency
   \<and> ''newest first'' \<noteq> TweetSearchSortOrderRelevancy
   \<and> SortOrder (zeroOpts\<lparr>SortOrder := ''newest first''\<rparr>
        :: (string, string, string, string, string, string) TweetRecentSearchOpts) \<noteq> []
   \<and> index (Query (TweetRecentSearchOpts_addQuery plainLookups
         (zeroOpts\<lparr>SortOrder := ''newest first''\<rparr>) \<lparr>RawQuery = []\<rparr>)) ''sort_order''
       = [''newest first'']
   \<and> RawQuery (TweetRecentSearchOpts_addQuery plainLookups
         (zeroOpts\<lparr>SortOrder := ''newest first''\<rparr>) \<lparr>RawQuery = []\<rparr>)
       = ''sort_order=newest+first''"
proof -
  have fresh: "index (Query \<lparr>RawQuery = []\<rparr>) ''sort_order'' = []"
    by (simp add: Query_def ParseQuery_def parseQuery_Nil)
  have esc: "QueryEscape ''newest first'' = ''newest+first''"
    by (simp add: shouldEscape_def)
  have set: "SortOrder (zeroOpts\<lparr>SortOrder := ''newest first''\<rparr>
        :: (string, string, string, string, string, string) TweetRecentSearchOpts) = ''newest first''"
    by simp
  show ?thesis
    using fresh esc set sort_order_passed_verbatim
      [of "zeroOpts\<lparr>SortOrder := ''newest first''\<rparr>" plainLookups "\<lparr>RawQuery = []\<rparr>"
          "''newest first''"]
    by (simp add: TweetSearchSortOrderRecency_def TweetSearchSortOrderRelevancy_def)
qed

text \<open>
  Claim C10 as stated fails: with all fields zero, a request whose query string holds
  parameters has it re-encoded (keys sorted, components escaped anew).
\<close>

theorem zero_opts_reencode_counterexample:
  "allZero (zeroOpts :: (string, string, string, string, string, string) TweetRecentSearchOpts)
   \<and> RawQuery (TweetRecentSearchOpts_addQuery plainLookups zeroOpts \<lparr>RawQuery = ''b=1&a=2''\<rparr>)
       = ''a=2&b=1''
   \<and> RawQuery (TweetRecentSearchOpts_addQuery plainLookups zeroOpts \<lparr>RawQuery = ''b=1&a=2''\<rparr>)
       \<noteq> RawQuery \<lparr>RawQuery = ''b=1&a=2''\<rparr>"
  by code_simp

text \<open>
  Claim C10, amended. With every field zero-valued, \<open>addQuery\<close> leaves the raw query
  string unchanged when it parses to no parameter (no empty query is set), and otherwise
  replaces it by the encoding of its own parameters, each key keeping its values. For
  any options, the values a request already carries under a key stay, in order, in front
  of what is merged in. The same holds for the user lookup options.
\<close>

theorem zero_opts_raw_query:
  "(allZero t \<longrightarrow>
      RawQuery (TweetRecentSearchOpts_addQuery x t req)
        = (if Query req = [] then RawQuery req else Encode (Query req))
      \<and> index (Query (TweetRecentSearchOpts_addQuery x t req)) key = index (Query req) key)
   \<and> prefix (index (Query req) key) (index (Query (TweetRecentSearchOpts_addQuery x t req)) key)
   \<and> (userAllZero u \<longrightarrow>
      RawQuery (UserLookupOpts_addQuery x u req)
        = (if Query req = [] then RawQuery req else Encode (Query req))
      \<and> index (Query (UserLookupOpts_addQuery x u req)) key = index (Query req) key)
   \<and> prefix (index (Query req) key) (index (Query (UserLookupOpts_addQuery x u req)) key)"
proof -
  have "allZero t \<Longrightarrow> recent_emitted x t key = []"
    using recent_emitted_length [of x t key] by (simp add: allZero_iff_none)
  moreover have "userAllZero u \<Longrightarrow> user_emitted x u key = []"
    using user_emitted_length [of x u key] by (simp add: userAllZero_iff_none)
  ultimately show ?thesis
    by (simp add: allZero_RawQuery userAllZero_RawQuery recent_addQuery_index
          user_addQuery_index)
qed

theorem zero_opts_raw_query_witness:
  "allZero (zeroOpts :: (string, string, string, string, string, string) TweetRecentSearchOpts)
   \<and> userAllZero (zeroUserOpts :: (string, string, string) UserLookupOpts)
   \<and> Query \<lparr>RawQuery = ''&&''\<rparr> = []
   \<and> RawQuery (TweetRecentSearchOpts_addQuery plainLookups zeroOpts \<lparr>RawQuery = ''&&''\<rparr>) = ''&&''
   \<and> RawQuery (UserLookupOpts_addQuery plainLookups zeroUserOpts \<lparr>RawQuery = ''&&''\<rparr>) = ''&&''
   \<and> index (Query (TweetRecentSearchOpts_addQuery plainLookups zeroOpts \<lparr>RawQuery = ''&&''\<rparr>))
        ''q'' = []"
proof -
  have z: "allZero (zeroOpts :: (string, string, string, string, string, string) TweetRecentSearchOpts)"
    by (simp add: allZero_def zeroOpts_def zeroTime_def IsZero_def)
  have uz: "userAllZero (zeroUserOpts :: (string, string, string) UserLookupOpts)"
    by (simp add: userAllZero_def zeroUserOpts_def)
  have q: "Query \<lparr>RawQuery = ''&&''\<rparr> = []"
    by code_simp
  show ?thesis
    using z uz q
      zero_opts_raw_query [of zeroOpts plainLookups "\<lparr>RawQuery = ''&&''\<rparr>" "''q''" zeroUserOpts]
    by simp
qed

text \<open>
  Claim C4. Validating a stream rule yields an error that is a parameter error exactly
  when the rule's filter value is the empty string, and yields no error for every rule
  with a non-empty value; the same holds for a rule identifier and its string.
\<close>

theorem validate_parameter_error_iff_empty:
  "((\<exists>e. TweetSearchStreamRule_validate r = Some e \<and> Is e ErrParameter) \<longleftrightarrow> Value r = [])
   \<and> ((TweetSearchStreamRule_validate r = None) \<longleftrightarrow> Value r \<noteq> [])
   \<and> ((\<exists>e. TweetSearchStreamRuleID_validate i = Some e \<and> Is e ErrParameter) \<longleftrightarrow> i = [])
   \<and> ((TweetSearchStreamRuleID_validate i = None) \<longleftrightarrow> i \<noteq> [])"
  by (simp add: TweetSearchStreamRule_validate_def TweetSearchStreamRuleID_validate_def)

text \<open>
  Claim C5. Batch validation of rules, and of rule identifiers, scans the sequence in
  the order given: when every element before some invalid element is valid, the batch
  returns exactly that element's own validation error (one error, not a collection);
  when every element is valid, the empty sequence included, it returns no error.
\<close>

theorem batch_validate_first_error:
  "((\<forall>r \<in> set pre. TweetSearchStreamRule_validate r = None)
      \<and> TweetSearchStreamRule_validate bad = Some e
     \<longrightarrow> tweetSearchStreamRules_validate (pre @ bad # post) = Some e)
   \<and> ((\<forall>r \<in> set t. TweetSearchStreamRule_validate r = None)
     \<longrightarrow> tweetSearchStreamRules_validate t = None)
   \<and> tweetSearchStreamRules_validate [] = None
   \<and> ((\<forall>j \<in> set ipre. TweetSearchStreamRuleID_validate j = None)
      \<and> TweetSearchStreamRuleID_validate ibad = Some e'
     \<longrightarrow> tweetSearchStreamRuleIDs_validate (ipre @ ibad # ipost) = Some e')
   \<and> ((\<forall>j \<in> set it. TweetSearchStreamRuleID_validate j = None)
     \<longrightarrow> tweetSearchStreamRuleIDs_validate it = None)
   \<and> tweetSearchStreamRuleIDs_validate [] = None"
  using rules_validate_first_invalid [of pre bad e post] rules_validate_all_valid [of t]
    ids_validate_first_invalid [of ipre ibad e' ipost] ids_validate_all_valid [of it]
  by auto

theorem batch_validate_first_error_witness:
  "TweetSearchStreamRule_validate \<lparr>Value = ''a'', Tag = ''''\<rparr> = None
   \<and> TweetSearchStreamRule_validate \<lparr>Value = '''', Tag = ''''\<rparr>
       = Some (Errorf ''tweet search stream rule value is required: %w'' ErrParameter)
   \<and> tweetSearchStreamRules_validate
        [\<lparr>Value = ''a'', Tag = ''''\<rparr>, \<lparr>Value = '''', Tag = ''''\<rparr>, \<lparr>Value = ''b'', Tag = ''''\<rparr>]
       = Some (Errorf ''tweet search stream rule value is required: %w'' ErrParameter)
   \<and> TweetSearchStreamRule_validate \<lparr>Value = ''b'', Tag = ''t''\<rparr> = None
   \<and> tweetSearchStreamRules_validate [\<lparr>Value = ''a'', Tag = ''''\<rparr>, \<lparr>Value = ''b'', Tag = ''t''\<rparr>]
       = None
   \<and> TweetSearchStreamRuleID_validate ''1'' = None
   \<and> TweetSearchStreamRuleID_validate ''''
       = Some (Errorf ''tweet search rule id is required %w'' ErrParameter)
   \<and> tweetSearchStreamRuleIDs_validate [''1'', '''', ''2'']
       = Some (Errorf ''tweet search rule id is required %w'' ErrParameter)
   \<and> TweetSearchStreamRuleID_validate ''2'' = None
   \<and> tweetSearchStreamRuleIDs_validate [''1'', ''2''] = None"
  using batch_validate_first_error
    [of "[\<lparr>Value = ''a'', Tag = ''''\<rparr>]" "\<lparr>Value = '''', Tag = ''''\<rparr>"
        "Errorf ''tweet search stream rule value is required: %w'' ErrParameter"
        "[\<lparr>Value = ''b'', Tag = ''''\<rparr>]"
        "[\<lparr>Value = ''a'', Tag = ''''\<rparr>, \<lparr>Value = ''b'', Tag = ''t''\<rparr>]"
        "[''1'']" "''''" "Errorf ''tweet search rule id is required %w'' ErrParameter"
        "[''2'']" "[''1'', ''2'']"]
  by (simp add: TweetSearchStreamRule_validate_def TweetSearchStreamRuleID_validate_def)

text \<open>
  Claim C9. The conversion of a batch of rule identifiers to plain strings returns a
  sequence of the same length as its input whose element at each index is the string
  form of the input identifier at that index.
\<close>

theorem toStringArray_pointwise:
  "length (tweetSearchStreamRuleIDs_toStringArray t) = length t
   \<and> (\<forall>i < length t. tweetSearchStreamRuleIDs_toStringArray t ! i = string_of_id (t ! i))"
  by (simp add: toStringArray_map)

theorem toStringArray_pointwise_witness:
  "length (tweetSearchStreamRuleIDs_toStringArray [''7'', ''3'', ''5'']) = 3
   \<and> tweetSearchStreamRuleIDs_toStringArray [''7'', ''3'', ''5''] ! 0 = ''7''
   \<and> tweetSearchStreamRuleIDs_toStringArray [''7'', ''3'', ''5''] ! 1 = ''3''
   \<and> tweetSearchStreamRuleIDs_toStringArray [''7'', ''3'', ''5''] ! 2 = ''5''"
  using toStringArray_pointwise [of "[''7'', ''3'', ''5'']"]
  by (simp add: string_of_id_def)

text \<open>
  Claim C6. For a status code other than 200 the decoder never returns a response. When
  the body was read and decodes as the error envelope, the result is that envelope with
  the status code and the three rate limits read from the headers; when the body does
  not decode, the result is the plain HTTP error made of the status code and those three
  rate limits alone, whatever the body was.
\<close>

theorem Build_non200:
  "statusCode \<noteq> StatusOK \<longrightarrow>
     (\<forall>r. Build d statusCode headers (body :: 'rerr + string) \<noteq> Inr r)
     \<and> (unmarshalErrorResponse d buffer = Inr e \<longrightarrow>
          Build d statusCode headers (Inr buffer :: 'rerr + string)
            = Inl (ErrorResponsePtr
                \<lparr>Envelope = Envelope e,
                 ErrorResponse.StatusCode = statusCode,
                 ErrorResponse.RateLimit = rateFromHeader d headers,
                 ErrorResponse.DailyAppRateLimit = dailyAppRateFromHeader d headers,
                 ErrorResponse.DailyUserRateLimit = dailyUserRateFromHeader d headers\<rparr>))
     \<and> (unmarshalErrorResponse d buffer = Inl err \<longrightarrow>
          Build d statusCode headers (Inr buffer :: 'rerr + string)
            = Inl (HTTPErrorPtr
                \<lparr>HTTPError.StatusCode = statusCode,
                 HTTPError.RateLimit = rateFromHeader d headers,
                 HTTPError.DailyAppRateLimit = dailyAppRateFromHeader d headers,
                 HTTPError.DailyUserRateLimit = dailyUserRateFromHeader d headers\<rparr>))"
  by (cases e) (auto simp: Build_def Let_def split: sum.splits)

theorem Build_non200_witness:
  "(429::int) \<noteq> StatusOK
   \<and> unmarshalErrorResponse sampleDecoding ''{}''
       = Inr \<lparr>Envelope = ''envelope'', ErrorResponse.StatusCode = 0,
               ErrorResponse.RateLimit = 0, ErrorResponse.DailyAppRateLimit = 0,
               ErrorResponse.DailyUserRateLimit = 0\<rparr>
   \<and> Build sampleDecoding 429 ''hdr'' (Inr ''{}'' :: string + string)
       = Inl (ErrorResponsePtr
           \<lparr>Envelope = ''envelope'', ErrorResponse.StatusCode = 429,
            ErrorResponse.RateLimit = 3, ErrorResponse.DailyAppRateLimit = 4,
            ErrorResponse.DailyUserRateLimit = 5\<rparr>)
   \<and> unmarshalErrorResponse sampleDecoding ''not json'' = Inl ''invalid character''
   \<and> Build sampleDecoding 429 ''hdr'' (Inr ''not json'' :: string + string)
       = Inl (HTTPErrorPtr
           \<lparr>HTTPError.StatusCode = 429, HTTPError.RateLimit = 3,
            HTTPError.DailyAppRateLimit = 4, HTTPError.DailyUserRateLimit = 5\<rparr>)"
proof -
  have ok: "(429::int) \<noteq> StatusOK" by (simp add: StatusOK_def)
  note parsed = Build_non200 [of 429 sampleDecoding "''hdr''" "Inr ''{}'' :: string + string"
      "''{}''" "\<lparr>Envelope = ''envelope'', ErrorResponse.StatusCode = 0,
        ErrorResponse.RateLimit = 0, ErrorResponse.DailyAppRateLimit = 0,
        ErrorResponse.DailyUserRateLimit = 0\<rparr>" "''invalid character''"]
  note unparsed = Build_non200 [of 429 sampleDecoding "''hdr''"
      "Inr ''not json'' :: string + string" "''not json''"
      "\<lparr>Envelope = ''envelope'', ErrorResponse.StatusCode = 0,
        ErrorResponse.RateLimit = 0, ErrorResponse.DailyAppRateLimit = 0,
        ErrorResponse.DailyUserRateLimit = 0\<rparr>" "''invalid character''"]
  show ?thesis
    using ok parsed unparsed by (simp add: sampleDecoding_simps)
qed



end
